theory Spec2Isabelle
  imports Main
begin

section \<open>JavaScript values that cross the SDK's boundary\<close>

text \<open>
  What \<^verbatim>\<open>JSON.parse\<close> returns. A number is a double, and the SDK never computes with
  one: it is kept as the two things JavaScript lets this code see of it, whether it is
  non-zero (its truthiness) and how \<^verbatim>\<open>String\<close> prints it. An object is the list of its
  own properties, with distinct keys.
\<close>

datatype json =
    JNull
  | JBool bool
  | JNum bool string
  | JStr string
  | JArr "json list"
  | JObj "(string \<times> json) list"

text \<open>
  Anything a \<^verbatim>\<open>throw\<close> or a rejected promise can carry: an error of the SDK's own
  hierarchy (\<^verbatim>\<open>types.ts\<close>: class name, message, code, status code), any other
  \<^verbatim>\<open>Error\<close> instance with its message, or a value that is no \<^verbatim>\<open>Error\<close> at all.
\<close>

datatype error_class =
    SoulCypherErrorC
  | AuthenticationErrorC
  | RateLimitErrorC
  | SessionErrorC
  | ConnectionErrorC

datatype thrown =
    SdkError error_class string "string option" "nat option"
  | JsError string
  | NonError

type_synonym 'a result = "thrown + 'a"

definition SoulCypherError :: "string \<Rightarrow> string option \<Rightarrow> nat option \<Rightarrow> thrown" where
  "SoulCypherError message code statusCode = SdkError SoulCypherErrorC message code statusCode"

definition AuthenticationError :: "string \<Rightarrow> thrown" where
  "AuthenticationError message =
     SdkError AuthenticationErrorC message (Some ''AUTHENTICATION_ERROR'') (Some 401)"

definition RateLimitError :: "string \<Rightarrow> thrown" where
  "RateLimitError message =
     SdkError RateLimitErrorC message (Some ''RATE_LIMIT_ERROR'') (Some 429)"

definition SessionError :: "string \<Rightarrow> thrown" where
  "SessionError message = SdkError SessionErrorC message (Some ''SESSION_ERROR'') None"

definition ConnectionError :: "string \<Rightarrow> thrown" where
  "ConnectionError message = SdkError ConnectionErrorC message (Some ''CONNECTION_ERROR'') None"

text \<open>\<^verbatim>\<open>error instanceof SoulCypherError\<close>: every class of the hierarchy extends it.\<close>

fun instanceof_SoulCypherError :: "thrown \<Rightarrow> bool" where
  "instanceof_SoulCypherError (SdkError _ _ _ _) = True"
| "instanceof_SoulCypherError _ = False"

text \<open>\<^verbatim>\<open>error instanceof Error ? error.message : "Unknown error"\<close>\<close>

fun message_or_unknown :: "thrown \<Rightarrow> string" where
  "message_or_unknown (SdkError _ m _ _) = m"
| "message_or_unknown (JsError m) = m"
| "message_or_unknown NonError = ''Unknown error''"

text \<open>
  Reading a property \<^verbatim>\<open>v.k\<close> of a parsed value: a \<^verbatim>\<open>TypeError\<close> on \<^verbatim>\<open>null\<close>,
  \<^verbatim>\<open>undefined\<close> (here \<open>None\<close>) where the value has no such property. The keys the SDK
  reads (\<^verbatim>\<open>type\<close>, \<^verbatim>\<open>status\<close>, \<^verbatim>\<open>text\<close>, \<^verbatim>\<open>message\<close>) exist on no
  prototype, so only an object's own properties answer. The messages of the two
  \<^verbatim>\<open>TypeError\<close>s are V8's; \<open>CHR 0x27\<close> is the single quote around the property name.
\<close>

definition null_TypeError :: "string \<Rightarrow> thrown" where
  "null_TypeError k =
     JsError (''Cannot read properties of null (reading '' @ [CHR 0x27] @ k @ [CHR 0x27] @ '')'')"

definition primitive_TypeError :: thrown where
  "primitive_TypeError = JsError ''Cannot convert object to primitive value''"

fun get_prop :: "json \<Rightarrow> string \<Rightarrow> (json option) result" where
  "get_prop JNull k = Inl (null_TypeError k)"
| "get_prop (JObj kvs) k = Inr (map_of kvs k)"
| "get_prop _ k = Inr None"

text \<open>Truthiness, as \<^verbatim>\<open>||\<close> and \<^verbatim>\<open>!\<close> test it.\<close>

fun truthy :: "json option \<Rightarrow> bool" where
  "truthy None = False"
| "truthy (Some JNull) = False"
| "truthy (Some (JBool b)) = b"
| "truthy (Some (JNum nonzero printed)) = nonzero"
| "truthy (Some (JStr s)) = (s \<noteq> [])"
| "truthy (Some (JArr _)) = True"
| "truthy (Some (JObj _)) = True"

text \<open>
  Decimal digits of a status code, as a template literal prints it (a status is an
  unsigned 16-bit number, far below where JavaScript turns to exponents).
\<close>

fun string_of_nat :: "nat \<Rightarrow> string" where
  "string_of_nat n =
     (if n < 10 then [''0123456789'' ! n]
      else string_of_nat (n div 10) @ [''0123456789'' ! (n mod 10)])"

declare string_of_nat.simps [simp del]

text \<open>
  \<^verbatim>\<open>String(v)\<close>, which the \<^verbatim>\<open>Error\<close> constructor applies to its message. It can
  throw: an object that has a property \<^verbatim>\<open>toString\<close> of its own (never callable, coming
  from JSON) has no way left to a primitive. An array joins its elements with commas,
  converting each in turn, \<^verbatim>\<open>null\<close> to the empty string.
\<close>

fun join_comma :: "string list \<Rightarrow> string" where
  "join_comma [] = []"
| "join_comma [s] = s"
| "join_comma (s # t # ss) = s @ '','' @ join_comma (t # ss)"

fun sequence :: "'a result list \<Rightarrow> ('a list) result" where
  "sequence [] = Inr []"
| "sequence (Inl e # rs) = Inl e"
| "sequence (Inr x # rs) = (case sequence rs of Inl e \<Rightarrow> Inl e | Inr xs \<Rightarrow> Inr (x # xs))"

fun js_String :: "json \<Rightarrow> string result" where
  "js_String JNull = Inr ''null''"
| "js_String (JBool b) = Inr (if b then ''true'' else ''false'')"
| "js_String (JNum nonzero printed) = Inr printed"
| "js_String (JStr s) = Inr s"
| "js_String (JArr vs) =
     (case sequence (map (\<lambda>v. if v = JNull then Inr [] else js_String v) vs) of
        Inl e \<Rightarrow> Inl e
      | Inr ss \<Rightarrow> Inr (join_comma ss))"
| "js_String (JObj kvs) =
     (if ''toString'' \<in> fst ` set kvs then Inl primitive_TypeError
      else Inr ''[object Object]'')"

section \<open>The session controller (session.ts)\<close>

subsection \<open>Constants\<close>

text \<open>
  Modelled from the spec: \<^verbatim>\<open>constants.ts\<close> is not among the sources. The event names
  are the spec's public event vocabulary, the message types its data-channel
  discriminators.
\<close>

definition SESSION_EVENTS_STARTED :: string where "SESSION_EVENTS_STARTED = ''session.started''"
definition SESSION_EVENTS_ENDED :: string where "SESSION_EVENTS_ENDED = ''session.ended''"
definition AVATAR_EVENTS_VIDEO :: string where "AVATAR_EVENTS_VIDEO = ''avatar.video''"
definition AVATAR_EVENTS_AUDIO :: string where "AVATAR_EVENTS_AUDIO = ''avatar.audio''"
definition AVATAR_EVENTS_RESPONSE :: string where "AVATAR_EVENTS_RESPONSE = ''avatar.response''"
definition AVATAR_EVENTS_STATUS :: string where "AVATAR_EVENTS_STATUS = ''avatar.status''"
definition AVATAR_EVENTS_ERROR :: string where "AVATAR_EVENTS_ERROR = ''avatar.error''"
definition CONNECTION_EVENTS_QUALITY :: string where
  "CONNECTION_EVENTS_QUALITY = ''connection.quality''"

definition MESSAGE_TYPES_CHAT :: string where "MESSAGE_TYPES_CHAT = ''chat''"
definition MESSAGE_TYPES_STATUS :: string where "MESSAGE_TYPES_STATUS = ''status''"
definition MESSAGE_TYPES_RESPONSE :: string where "MESSAGE_TYPES_RESPONSE = ''response''"
definition MESSAGE_TYPES_ERROR :: string where "MESSAGE_TYPES_ERROR = ''error''"

subsection \<open>Data\<close>

text \<open>
  The fields of \<^verbatim>\<open>AvatarSession\<close> the SDK reads. The credential and the URL are
  \<open>None\<close> when the property is missing; \<^verbatim>\<open>!x\<close> also holds of the empty string.
\<close>

record avatar_session =
  id_field :: string
  liveKitToken :: "string option"
  liveKitUrl :: "string option"

fun falsy :: "string option \<Rightarrow> bool" where
  "falsy None = True"
| "falsy (Some s) = (s = [])"

text \<open>What the transport hands to its listeners.\<close>

datatype track_class = RemoteVideoTrack | RemoteAudioTrack | OtherTrack

record track =
  kind :: string
  track_class :: track_class
  track_name :: string

type_synonym participant = string
type_synonym element = string

text \<open>
  A data-channel packet as \<^verbatim>\<open>JSON.parse(new TextDecoder().decode(payload))\<close> sees it:
  the parse throws, or yields a value.
\<close>

datatype packet = Unparseable thrown | Parsed json

text \<open>The \<^verbatim>\<open>data\<close> argument of \<^verbatim>\<open>emitEvent\<close>, one shape per call site.\<close>

datatype event_payload =
    SessionInfo avatar_session
  | TrackInfo track participant
  | StatusInfo "json option" "json option" participant
  | TextInfo "json option" participant
  | QualityInfo string participant

text \<open>
  \<^verbatim>\<open>SessionEventData\<close>. The timestamp is the wall clock's reading and is left out.
\<close>

record session_event =
  ev_type :: string
  ev_session :: avatar_session
  ev_data :: event_payload

text \<open>
  A registered handler is a function object. What the SDK can see of it is its identity
  (which \<^verbatim>\<open>indexOf\<close> compares), the calls it makes back into the controller's \<^verbatim>\<open>on\<close>
  and \<^verbatim>\<open>off\<close> while it runs, and whether it then returns or throws. A handler can
  register or remove another handler, or itself. Other calls back into the controller are
  not modelled.
\<close>

datatype handler =
    Handler (hid: nat) (calls: "callback list") (throws: "thrown option")
and callback =
    CallOn string handler
  | CallOff string handler
  | CallOnSelf string
  | CallOffSelf string

text \<open>
  The closures that \<^verbatim>\<open>setupRoomEventHandlers\<close> and \<^verbatim>\<open>setupMediaElements\<close>
  register on the room, and the room as the controller sees it: the listeners registered
  so far, each under the name of its \<^verbatim>\<open>RoomEvent\<close>, in registration order.
\<close>

datatype listener =
    NormalizeTrack
  | NormalizeData
  | NormalizeDisconnected
  | NormalizeQuality
  | AttachMedia "element option" "element option"
  | DetachMedia

datatype room_event_name =
    TrackSubscribed
  | TrackUnsubscribed
  | DataReceived
  | Disconnected
  | ConnectionQualityChanged

record room_obj =
  listeners :: "(room_event_name \<times> listener) list"

definition new_Room :: room_obj where
  "new_Room = \<lparr>listeners = []\<rparr>"

definition room_on :: "room_event_name \<Rightarrow> listener \<Rightarrow> room_obj \<Rightarrow> room_obj" where
  "room_on name l r = r\<lparr>listeners := listeners r @ [(name, l)]\<rparr>"

record controller =
  room :: "room_obj option"
  session :: avatar_session
  eventHandlers :: "string \<rightharpoonup> handler list"

definition new_AvatarSessionManager :: "avatar_session \<Rightarrow> controller" where
  "new_AvatarSessionManager s = \<lparr>room = None, session = s, eventHandlers = Map.empty\<rparr>"

text \<open>
  What a call does to the world outside the controller, in the order it happens: calls
  into the transport, calls of \<^verbatim>\<open>emitEvent\<close>, calls of registered handlers, console
  output, and the rejection of a promise nobody awaits.
\<close>

datatype effect =
    RoomConnect string string
  | RoomDisconnect
  | PublishData json bool
  | EmitEvent string event_payload
  | HandlerCall nat session_event
  | ConsoleError thrown
  | ConsoleWarn thrown
  | TrackAttach string element
  | TrackDetach string
  | UnhandledRejection thrown

text \<open>How the promise of an asynchronous transport or network operation settles.\<close>

datatype settlement = Resolves | Rejects thrown

text \<open>
  How the transport answers a call of \<^verbatim>\<open>Room.disconnect\<close>: how the promise it returns
  settles, and whether the room raises its \<^verbatim>\<open>Disconnected\<close> notification for the
  teardown (the transport does so for a room that was connected). Both come after the
  caller's synchronous code has run.
\<close>

record teardown =
  promise :: settlement
  notifies :: bool

subsection \<open>Event dispatch: on, off, emitEvent\<close>

text \<open>The array registered for an event type, empty when the type has no entry.\<close>

definition handlers_of :: "controller \<Rightarrow> string \<Rightarrow> handler list" where
  "handlers_of c event = (case eventHandlers c event of None \<Rightarrow> [] | Some hs \<Rightarrow> hs)"

definition on :: "string \<Rightarrow> handler \<Rightarrow> controller \<Rightarrow> controller" where
  "on event h c =
     (let hs = (case eventHandlers c event of None \<Rightarrow> [] | Some hs \<Rightarrow> hs)
      in c\<lparr>eventHandlers := (eventHandlers c)(event \<mapsto> hs @ [h])\<rparr>)"

text \<open>\<^verbatim>\<open>indexOf\<close> finds the first occurrence, \<^verbatim>\<open>splice(index, 1)\<close> removes it.\<close>

definition off :: "string \<Rightarrow> handler \<Rightarrow> controller \<Rightarrow> controller" where
  "off event h c =
     (case eventHandlers c event of
        None \<Rightarrow> c
      | Some hs \<Rightarrow>
          if h \<in> set hs
          then c\<lparr>eventHandlers := (eventHandlers c)(event \<mapsto> remove1 h hs)\<rparr>
          else c)"

text \<open>A call a running handler \<open>h\<close> makes back into the controller.\<close>

fun run_callback :: "handler \<Rightarrow> callback \<Rightarrow> controller \<Rightarrow> controller" where
  "run_callback h (CallOn event g) c = on event g c"
| "run_callback h (CallOff event g) c = off event g c"
| "run_callback h (CallOnSelf event) c = on event h c"
| "run_callback h (CallOffSelf event) c = off event h c"

text \<open>
  One turn of the \<^verbatim>\<open>forEach\<close>: the handler is called, makes its calls back, and
  returns or throws; the \<^verbatim>\<open>catch\<close> logs a throw.
\<close>

definition call_handler :: "session_event \<Rightarrow> handler \<Rightarrow> controller \<Rightarrow> controller \<times> effect list" where
  "call_handler ev h c =
     (fold (run_callback h) (calls h) c,
      HandlerCall (hid h) ev # (case throws h of None \<Rightarrow> [] | Some e \<Rightarrow> [ConsoleError e]))"

text \<open>
  \<^verbatim>\<open>handlers.forEach\<close> walks the array that \<^verbatim>\<open>on\<close> and \<^verbatim>\<open>off\<close> change in place.
  It fixes the number of indices when it starts and visits each index that still exists
  when its turn comes, reading the element that is there at that moment: \<open>k\<close> is the
  index, \<open>n\<close> the number of indices still to visit. An element appended meanwhile lies
  beyond the last index; after a \<^verbatim>\<open>splice\<close> the elements behind it have moved down by
  one and the last index is gone.
\<close>

fun forEach_from ::
  "string \<Rightarrow> session_event \<Rightarrow> nat \<Rightarrow> nat \<Rightarrow> controller \<Rightarrow> controller \<times> effect list" where
  "forEach_from type ev k 0 c = (c, [])"
| "forEach_from type ev k (Suc n) c =
     (if k < length (handlers_of c type)
      then (let (c1, es) = call_handler ev (handlers_of c type ! k) c;
                (c2, es') = forEach_from type ev (Suc k) n c1
            in (c2, es @ es'))
      else forEach_from type ev (Suc k) n c)"

definition emitEvent :: "string \<Rightarrow> event_payload \<Rightarrow> controller \<Rightarrow> controller \<times> effect list" where
  "emitEvent type data c =
     (case eventHandlers c type of
        None \<Rightarrow> (c, [EmitEvent type data])
      | Some hs \<Rightarrow>
          (let (c', es) = forEach_from type
                            \<lparr>ev_type = type, ev_session = session c, ev_data = data\<rparr>
                            0 (length hs) c
           in (c', EmitEvent type data # es)))"

subsection \<open>The hooks on the room\<close>

definition setupRoomEventHandlers :: "controller \<Rightarrow> controller" where
  "setupRoomEventHandlers c =
     (case room c of
        None \<Rightarrow> c
      | Some r \<Rightarrow>
          c\<lparr>room := Some (room_on ConnectionQualityChanged NormalizeQuality
                          (room_on Disconnected NormalizeDisconnected
                            (room_on DataReceived NormalizeData
                              (room_on TrackSubscribed NormalizeTrack r))))\<rparr>)"

definition setupMediaElements ::
  "element option \<Rightarrow> element option \<Rightarrow> controller \<Rightarrow> controller" where
  "setupMediaElements videoElement audioElement c =
     (case room c of
        None \<Rightarrow> c
      | Some r \<Rightarrow>
          c\<lparr>room := Some (room_on TrackUnsubscribed DetachMedia
                          (room_on TrackSubscribed (AttachMedia videoElement audioElement) r))\<rparr>)"

text \<open>A notification of the transport, with the arguments it passes to the listeners.\<close>

datatype room_event =
    EvTrackSubscribed track participant
  | EvTrackUnsubscribed track
  | EvDataReceived packet participant
  | EvDisconnected
  | EvConnectionQualityChanged string participant

fun event_name :: "room_event \<Rightarrow> room_event_name" where
  "event_name (EvTrackSubscribed _ _) = TrackSubscribed"
| "event_name (EvTrackUnsubscribed _) = TrackUnsubscribed"
| "event_name (EvDataReceived _ _) = DataReceived"
| "event_name EvDisconnected = Disconnected"
| "event_name (EvConnectionQualityChanged _ _) = ConnectionQualityChanged"

text \<open>
  The body of the \<^verbatim>\<open>try\<close> in the \<^verbatim>\<open>DataReceived\<close> hook: each property read can
  throw, and the comparisons are strict, so only the string itself matches.
\<close>

definition dispatch_data ::
  "json \<Rightarrow> participant \<Rightarrow> controller \<Rightarrow> (controller \<times> effect list) result" where
  "dispatch_data data participant c =
     (case get_prop data ''type'' of
        Inl e \<Rightarrow> Inl e
      | Inr ty \<Rightarrow>
          if ty = Some (JStr MESSAGE_TYPES_STATUS) then
            (case get_prop data ''status'' of
               Inl e \<Rightarrow> Inl e
             | Inr st \<Rightarrow>
                 (case get_prop data ''text'' of
                    Inl e \<Rightarrow> Inl e
                  | Inr tx \<Rightarrow> Inr (emitEvent AVATAR_EVENTS_STATUS (StatusInfo st tx participant) c)))
          else if ty = Some (JStr MESSAGE_TYPES_RESPONSE) then
            (case get_prop data ''text'' of
               Inl e \<Rightarrow> Inl e
             | Inr tx \<Rightarrow> Inr (emitEvent AVATAR_EVENTS_RESPONSE (TextInfo tx participant) c))
          else if ty = Some (JStr MESSAGE_TYPES_ERROR) then
            (case get_prop data ''text'' of
               Inl e \<Rightarrow> Inl e
             | Inr tx \<Rightarrow> Inr (emitEvent AVATAR_EVENTS_ERROR (TextInfo tx participant) c))
          else Inr (c, []))"

text \<open>
  The \<^verbatim>\<open>DataReceived\<close> hook whole: the result is what leaves the hook, after its
  \<^verbatim>\<open>catch\<close> has turned every throw into a warning.
\<close>

definition onDataReceived ::
  "packet \<Rightarrow> participant \<Rightarrow> controller \<Rightarrow> unit result \<times> controller \<times> effect list" where
  "onDataReceived payload participant c =
     (case (case payload of
              Unparseable e \<Rightarrow> Inl e
            | Parsed data \<Rightarrow> dispatch_data data participant c) of
        Inl e \<Rightarrow> (Inr (), c, [ConsoleWarn e])
      | Inr (c', effs) \<Rightarrow> (Inr (), c', effs))"

definition onTrackSubscribed ::
  "track \<Rightarrow> participant \<Rightarrow> controller \<Rightarrow> controller \<times> effect list" where
  "onTrackSubscribed t participant c =
     (if kind t = ''video'' then emitEvent AVATAR_EVENTS_VIDEO (TrackInfo t participant) c
      else if kind t = ''audio'' then emitEvent AVATAR_EVENTS_AUDIO (TrackInfo t participant) c
      else (c, []))"

definition attachMedia :: "element option \<Rightarrow> element option \<Rightarrow> track \<Rightarrow> effect list" where
  "attachMedia videoElement audioElement t =
     (case (track_class t, videoElement, audioElement) of
        (RemoteVideoTrack, Some v, _) \<Rightarrow> [TrackAttach (track_name t) v]
      | (RemoteAudioTrack, _, Some a) \<Rightarrow> [TrackAttach (track_name t) a]
      | _ \<Rightarrow> [])"

text \<open>One listener called with one notification it is registered for.\<close>

fun run_listener :: "listener \<Rightarrow> room_event \<Rightarrow> controller \<Rightarrow> controller \<times> effect list" where
  "run_listener NormalizeTrack (EvTrackSubscribed t p) c = onTrackSubscribed t p c"
| "run_listener NormalizeData (EvDataReceived payload p) c = snd (onDataReceived payload p c)"
| "run_listener NormalizeDisconnected EvDisconnected c =
     emitEvent SESSION_EVENTS_ENDED (SessionInfo (session c)) c"
| "run_listener NormalizeQuality (EvConnectionQualityChanged q p) c =
     emitEvent CONNECTION_EVENTS_QUALITY (QualityInfo q p) c"
| "run_listener (AttachMedia v a) (EvTrackSubscribed t p) c = (c, attachMedia v a t)"
| "run_listener DetachMedia (EvTrackUnsubscribed t) c = (c, [TrackDetach (track_name t)])"
| "run_listener _ _ c = (c, [])"

fun run_listeners :: "listener list \<Rightarrow> room_event \<Rightarrow> controller \<Rightarrow> controller \<times> effect list" where
  "run_listeners [] ev c = (c, [])"
| "run_listeners (l # ls) ev c =
     (let (c1, es) = run_listener l ev c;
          (c2, es') = run_listeners ls ev c1
      in (c2, es @ es'))"

text \<open>
  The transport raises a notification on a room: the listeners registered on that room
  under the notification's name run in registration order. The listeners live on the room
  object and close over the controller, so a room the controller has dropped or replaced
  still reaches the controller, in the state the controller is in by then.
\<close>

definition room_emit :: "room_event \<Rightarrow> room_obj \<Rightarrow> controller \<Rightarrow> controller \<times> effect list" where
  "room_emit ev r c =
     run_listeners (map snd (filter (\<lambda>nl. fst nl = event_name ev) (listeners r))) ev c"

subsection \<open>connect, disconnect, sendMessage, getStatus\<close>

text \<open>
  \<^verbatim>\<open>Room.connect\<close>, \<^verbatim>\<open>Room.disconnect\<close> and \<^verbatim>\<open>publishData\<close> are asynchronous
  operations of the transport: a call returns a promise, and the first argument says how
  the transport answers. \<^verbatim>\<open>connect\<close> and \<^verbatim>\<open>sendMessage\<close> await their promise.
  \<^verbatim>\<open>disconnect\<close> does not: it drops the room and emits \<^verbatim>\<open>session.ended\<close> in the
  same turn, and what the transport's answer brings comes after that, the
  \<^verbatim>\<open>Disconnected\<close> notification to the hooks still registered on the dropped room, and
  a rejection that reaches nobody. Each operation returns what its own promise settles
  with, the controller afterwards, and the effects in the order they happen.
\<close>

definition connect ::
  "settlement \<Rightarrow> element option \<Rightarrow> element option \<Rightarrow> controller
     \<Rightarrow> unit result \<times> controller \<times> effect list" where
  "connect transport videoElement audioElement c =
     (if falsy (liveKitToken (session c)) \<or> falsy (liveKitUrl (session c))
      then (Inl (ConnectionError ''LiveKit connection details not available''), c, [])
      else
        (let c1 = setupRoomEventHandlers (c\<lparr>room := Some new_Room\<rparr>);
             io = RoomConnect (the (liveKitUrl (session c))) (the (liveKitToken (session c)))
         in case transport of
              Rejects e \<Rightarrow>
                (Inl (ConnectionError (''Failed to connect to LiveKit: '' @ message_or_unknown e)),
                 c1, [io])
            | Resolves \<Rightarrow>
                (let c2 = (if videoElement \<noteq> None \<or> audioElement \<noteq> None
                           then setupMediaElements videoElement audioElement c1
                           else c1);
                     (c3, es) = emitEvent SESSION_EVENTS_STARTED (SessionInfo (session c2)) c2
                 in (Inr (), c3, io # es))))"

text \<open>The body of \<^verbatim>\<open>disconnect\<close>, which runs in one turn.\<close>

definition disconnect_turn :: "controller \<Rightarrow> unit result \<times> controller \<times> effect list" where
  "disconnect_turn c =
     (case room c of
        None \<Rightarrow>
          (let (c1, es) = emitEvent SESSION_EVENTS_ENDED (SessionInfo (session c)) c
           in (Inr (), c1, es))
      | Some r \<Rightarrow>
          (let c0 = c\<lparr>room := None\<rparr>;
               (c1, es) = emitEvent SESSION_EVENTS_ENDED (SessionInfo (session c0)) c0
           in (Inr (), c1, RoomDisconnect # es)))"

text \<open>
  What the transport's answer to \<^verbatim>\<open>Room.disconnect\<close> brings afterwards, given the
  room the call was made on (none when the controller held none): the notification, run
  on that room's listeners, then the rejection nobody handles.
\<close>

definition transport_teardown ::
  "teardown \<Rightarrow> room_obj option \<Rightarrow> controller \<Rightarrow> controller \<times> effect list" where
  "transport_teardown transport held c =
     (case held of
        None \<Rightarrow> (c, [])
      | Some r \<Rightarrow>
          (let (c1, ns) = (if notifies transport then room_emit EvDisconnected r c else (c, []));
               rejection = (case promise transport of
                              Resolves \<Rightarrow> []
                            | Rejects e \<Rightarrow> [UnhandledRejection e])
           in (c1, ns @ rejection)))"

text \<open>A call of \<^verbatim>\<open>disconnect\<close> with all it brings about.\<close>

definition disconnect :: "teardown \<Rightarrow> controller \<Rightarrow> unit result \<times> controller \<times> effect list" where
  "disconnect transport c =
     (let (res, c1, es) = disconnect_turn c;
          (c2, ls) = transport_teardown transport (room c) c1
      in (res, c2, es @ ls))"

definition sendMessage ::
  "settlement \<Rightarrow> string \<Rightarrow> controller \<Rightarrow> unit result \<times> controller \<times> effect list" where
  "sendMessage transport message c =
     (case room c of
        None \<Rightarrow> (Inl (SessionError ''Not connected to session''), c, [])
      | Some r \<Rightarrow>
          (let io = PublishData (JObj [(''type'', JStr MESSAGE_TYPES_CHAT), (''text'', JStr message)]) True
           in case transport of
                Resolves \<Rightarrow> (Inr (), c, [io])
              | Rejects e \<Rightarrow>
                  (Inl (SessionError (''Failed to send message: '' @ message_or_unknown e)), c, [io])))"

text \<open>
  \<^verbatim>\<open>getStatus\<close> reads \<^verbatim>\<open>this.room.state\<close>, which the transport owns: the first
  argument is what the transport reports at the time of the call.
\<close>

definition getStatus :: "string \<Rightarrow> controller \<Rightarrow> string" where
  "getStatus room_state c =
     (case room c of
        None \<Rightarrow> ''disconnected''
      | Some r \<Rightarrow>
          if room_state = ''connected'' then ''connected''
          else if room_state = ''connecting'' then ''connecting''
          else if room_state = ''disconnected'' then ''disconnected''
          else ''error'')"

section \<open>The gateway client (api-client.ts)\<close>

record api_client =
  baseUrl :: string
  apiKey :: string

record sdk_config =
  cfg_apiKey :: "string option"
  cfg_baseUrl :: "string option"

definition new_APIClient :: "sdk_config \<Rightarrow> api_client result" where
  "new_APIClient config =
     (if falsy (cfg_apiKey config) then Inl (AuthenticationError ''API key is required'')
      else Inr \<lparr>baseUrl = (if falsy (cfg_baseUrl config) then ''https://api.soulcypher.ai''
                           else the (cfg_baseUrl config)),
                apiKey = the (cfg_apiKey config)\<rparr>)"

text \<open>
  A response of the gateway: its status, the body as \<^verbatim>\<open>response.text()\<close> gives it,
  what \<^verbatim>\<open>JSON.parse\<close> makes of that text (\<open>None\<close> when it throws), and what
  \<^verbatim>\<open>response.json()\<close> settles with at the type the caller declares
  (\<^verbatim>\<open>request<T>\<close>). \<^verbatim>\<open>fetch\<close> itself rejects, or resolves with a response.
\<close>

record 'a response =
  status :: nat
  body_text :: string
  parsed_text :: "json option"
  json_body :: "'a result"

datatype 'a fetched = FetchRejects thrown | FetchResolves "'a response"

definition ok :: "'a response \<Rightarrow> bool" where
  "ok r = (200 \<le> status r \<and> status r \<le> 299)"

text \<open>
  \<^verbatim>\<open>handleErrorResponse\<close> never returns: the result is what it throws. That is the
  error it builds, unless reading \<^verbatim>\<open>message\<close> or turning a message that is no string
  into one throws first.
\<close>

definition handleErrorResponse :: "'a response \<Rightarrow> thrown" where
  "handleErrorResponse r =
     (let errorData = (case parsed_text r of
                         Some v \<Rightarrow> v
                       | None \<Rightarrow> JObj [(''message'', JStr (body_text r))])
      in case get_prop errorData ''message'' of
           Inl e \<Rightarrow> e
         | Inr m \<Rightarrow>
             (case (if truthy m then js_String (the m)
                    else Inr (''Request failed with status '' @ string_of_nat (status r))) of
                Inl e \<Rightarrow> e
              | Inr message \<Rightarrow>
                  if status r = 401 then AuthenticationError message
                  else if status r = 429 then RateLimitError message
                  else if status r = 400 then SoulCypherError message (Some ''VALIDATION_ERROR'') (Some 400)
                  else if status r = 404 then SoulCypherError message (Some ''NOT_FOUND'') (Some 404)
                  else if status r = 500 then SoulCypherError message (Some ''INTERNAL_ERROR'') (Some 500)
                  else SoulCypherError message (Some ''API_ERROR'') (Some (status r))))"

text \<open>The \<^verbatim>\<open>catch\<close> of \<^verbatim>\<open>request\<close>.\<close>

definition request_catch :: "thrown \<Rightarrow> thrown" where
  "request_catch e =
     (if instanceof_SoulCypherError e then e
      else SoulCypherError (''Request failed: '' @ message_or_unknown e) (Some ''NETWORK_ERROR'') None)"

datatype sdk_effect =
    HttpRequest string string
  | OnController nat effect

text \<open>
  \<^verbatim>\<open>request\<close>, given how \<^verbatim>\<open>fetch\<close> answers. The promise of \<^verbatim>\<open>response.json()\<close> is
  returned, not awaited, inside the \<^verbatim>\<open>try\<close>: its rejection passes the \<^verbatim>\<open>catch\<close> by.
\<close>

definition request ::
  "'a fetched \<Rightarrow> api_client \<Rightarrow> string \<Rightarrow> string \<Rightarrow> 'a result \<times> sdk_effect list" where
  "request net api endpoint method =
     (let url = baseUrl api @ ''/v1'' @ endpoint
      in (case net of
            FetchRejects e \<Rightarrow> Inl (request_catch e)
          | FetchResolves r \<Rightarrow>
              if \<not> ok r then Inl (request_catch (handleErrorResponse r))
              else json_body r,
          [HttpRequest method url]))"

definition api_createSession ::
  "avatar_session fetched \<Rightarrow> api_client \<Rightarrow> avatar_session result \<times> sdk_effect list" where
  "api_createSession net api = request net api ''/sessions/create'' ''POST''"


definition api_endSession ::
  "unit fetched \<Rightarrow> api_client \<Rightarrow> string \<Rightarrow> unit result \<times> sdk_effect list" where
  "api_endSession net api sessionId =
     request net api (''/sessions/'' @ sessionId @ ''/end'') ''POST''"


section \<open>The facade and its registry (sdk.ts)\<close>

text \<open>
  A JavaScript \<^verbatim>\<open>Map\<close> keeps its keys in insertion order: \<^verbatim>\<open>set\<close> on a present
  key replaces the value in place, on a new key appends; \<^verbatim>\<open>delete\<close> leaves no entry
  under the key.
\<close>

fun map_set :: "'k \<Rightarrow> 'v \<Rightarrow> ('k \<times> 'v) list \<Rightarrow> ('k \<times> 'v) list" where
  "map_set k v [] = [(k, v)]"
| "map_set k v ((k', v') # m) = (if k' = k then (k, v) # m else (k', v') # map_set k v m)"

definition map_delete :: "'k \<Rightarrow> ('k \<times> 'v) list \<Rightarrow> ('k \<times> 'v) list" where
  "map_delete k m = filter (\<lambda>kv. fst kv \<noteq> k) m"

text \<open>
  The SDK object (\<open>apiClient\<close>, \<open>sessions\<close>) together with the controllers it has
  created. Controllers are objects shared with the caller, so the registry holds
  references into a store; \<open>allocated\<close> is the next free reference and \<open>log\<close> what has
  happened so far.
\<close>

record sdk =
  apiClient :: api_client
  sessions :: "(string \<times> nat) list"
  objects :: "nat \<Rightarrow> controller"
  allocated :: nat
  log :: "sdk_effect list"

definition new_SoulCypherSDK :: "sdk_config \<Rightarrow> sdk result" where
  "new_SoulCypherSDK config =
     (if falsy (cfg_apiKey config) then Inl (AuthenticationError ''API key is required'')
      else case new_APIClient config of
             Inl e \<Rightarrow> Inl e
           | Inr api \<Rightarrow>
               Inr \<lparr>apiClient = api, sessions = [],
                    objects = (\<lambda>_. new_AvatarSessionManager
                                      \<lparr>id_field = [], liveKitToken = None, liveKitUrl = None\<rparr>),
                    allocated = 0, log = []\<rparr>)"

text \<open>\<^verbatim>\<open>new AvatarSessionManager(session)\<close> followed by \<^verbatim>\<open>sessions.set(session.id, ...)\<close>.\<close>

definition register_new :: "avatar_session \<Rightarrow> sdk \<Rightarrow> nat \<times> sdk" where
  "register_new s w =
     (let ref = allocated w
      in (ref, w\<lparr>objects := (objects w)(ref := new_AvatarSessionManager s),
                 allocated := Suc ref,
                 sessions := map_set (id_field s) ref (sessions w)\<rparr>))"

definition logged :: "sdk_effect list \<Rightarrow> sdk \<Rightarrow> sdk" where
  "logged effs w = w\<lparr>log := log w @ effs\<rparr>"

definition createSession :: "avatar_session fetched \<Rightarrow> sdk \<Rightarrow> nat result \<times> sdk" where
  "createSession net w =
     (let (res, effs) = api_createSession net (apiClient w)
      in case res of
           Inl e \<Rightarrow> (Inl e, logged effs w)
         | Inr s \<Rightarrow> (let (ref, w') = register_new s (logged effs w) in (Inr ref, w')))"


text \<open>
  A controller's \<^verbatim>\<open>disconnect\<close>, run on the object a reference names:
  \<open>disconnect_ref\<close> is the call itself, whose promise the facade awaits, and
  \<open>teardown_ref\<close> what the transport brings afterwards for the room that object held.
\<close>

definition disconnect_ref :: "nat \<Rightarrow> sdk \<Rightarrow> unit result \<times> sdk" where
  "disconnect_ref ref w =
     (let (res, c', effs) = disconnect_turn (objects w ref)
      in (res, logged (map (OnController ref) effs) (w\<lparr>objects := (objects w)(ref := c')\<rparr>)))"

definition teardown_ref :: "teardown \<Rightarrow> nat \<Rightarrow> room_obj option \<Rightarrow> sdk \<Rightarrow> sdk" where
  "teardown_ref transport ref held w =
     (let (c', effs) = transport_teardown transport held (objects w ref)
      in logged (map (OnController ref) effs) (w\<lparr>objects := (objects w)(ref := c')\<rparr>))"

definition remote_endSession :: "unit fetched \<Rightarrow> string \<Rightarrow> sdk \<Rightarrow> unit result \<times> sdk" where
  "remote_endSession net sessionId w =
     (let (res, effs) = api_endSession net (apiClient w) sessionId in (res, logged effs w))"

text \<open>
  \<^verbatim>\<open>endSession\<close>. The transport's answer to the controller's teardown needs the
  network and arrives after \<^verbatim>\<open>endSession\<close> has issued its own request.
\<close>

definition endSession :: "teardown \<Rightarrow> unit fetched \<Rightarrow> string \<Rightarrow> sdk \<Rightarrow> unit result \<times> sdk" where
  "endSession transport net sessionId w =
     (case map_of (sessions w) sessionId of
        Some sessionManager \<Rightarrow>
          (let held = room (objects w sessionManager)
           in case disconnect_ref sessionManager w of
                (Inl e, w1) \<Rightarrow> (Inl e, teardown_ref transport sessionManager held w1)
              | (Inr _, w1) \<Rightarrow>
                  (let (res, w2) = remote_endSession net sessionId
                                     (w1\<lparr>sessions := map_delete sessionId (sessions w1)\<rparr>)
                   in (res, teardown_ref transport sessionManager held w2)))
      | None \<Rightarrow> remote_endSession net sessionId w)"

definition getActiveSessions :: "sdk \<Rightarrow> nat list" where
  "getActiveSessions w = map snd (sessions w)"

text \<open>
  \<^verbatim>\<open>cleanup\<close>: the \<^verbatim>\<open>map\<close> calls every controller's \<^verbatim>\<open>disconnect\<close> in registry order,
  each call running up to its first \<^verbatim>\<open>await\<close> (it has none) before the next starts;
  \<^verbatim>\<open>Promise.all\<close> then rejects with the first rejection among the promises, and the
  \<^verbatim>\<open>clear\<close> after the \<^verbatim>\<open>await\<close> runs only if there is none. The transports'
  answers, given per reference, arrive after all that, for each room a call was made on.
\<close>

fun disconnect_each ::
  "nat list \<Rightarrow> sdk \<Rightarrow> unit result list \<times> (nat \<times> room_obj option) list \<times> sdk" where
  "disconnect_each [] w = ([], [], w)"
| "disconnect_each (ref # refs) w =
     (let held = room (objects w ref);
          (res, w1) = disconnect_ref ref w;
          (ress, helds, w2) = disconnect_each refs w1
      in (res # ress, (ref, held) # helds, w2))"

fun teardown_each :: "(nat \<Rightarrow> teardown) \<Rightarrow> (nat \<times> room_obj option) list \<Rightarrow> sdk \<Rightarrow> sdk" where
  "teardown_each transport [] w = w"
| "teardown_each transport ((ref, held) # helds) w =
     teardown_each transport helds (teardown_ref (transport ref) ref held w)"

fun Promise_all :: "unit result list \<Rightarrow> unit result" where
  "Promise_all [] = Inr ()"
| "Promise_all (Inl e # ps) = Inl e"
| "Promise_all (Inr _ # ps) = Promise_all ps"

definition cleanup :: "(nat \<Rightarrow> teardown) \<Rightarrow> sdk \<Rightarrow> unit result \<times> sdk" where
  "cleanup transport w =
     (let (disconnectPromises, helds, w1) = disconnect_each (map snd (sessions w)) w
      in case Promise_all disconnectPromises of
           Inl e \<Rightarrow> (Inl e, teardown_each transport helds w1)
         | Inr _ \<Rightarrow> (Inr (), teardown_each transport helds (w1\<lparr>sessions := []\<rparr>)))"

section \<open>Observations on effects\<close>

text \<open>The handlers called, in order, each with the event it received.\<close>

fun handler_calls :: "effect list \<Rightarrow> (nat \<times> session_event) list" where
  "handler_calls [] = []"
| "handler_calls (HandlerCall i ev # es) = (i, ev) # handler_calls es"
| "handler_calls (_ # es) = handler_calls es"

text \<open>The types of the events emitted, in order.\<close>

fun emitted :: "effect list \<Rightarrow> string list" where
  "emitted [] = []"
| "emitted (EmitEvent ty d # es) = ty # emitted es"
| "emitted (_ # es) = emitted es"

text \<open>The calls into the transport.\<close>

fun is_transport_io :: "effect \<Rightarrow> bool" where
  "is_transport_io (RoomConnect _ _) = True"
| "is_transport_io RoomDisconnect = True"
| "is_transport_io (PublishData _ _) = True"
| "is_transport_io _ = False"

definition transport_io :: "effect list \<Rightarrow> effect list" where
  "transport_io es = filter is_transport_io es"

text \<open>What happened on one controller, and the network calls, within the SDK's log.\<close>

fun on_controller :: "nat \<Rightarrow> sdk_effect list \<Rightarrow> effect list" where
  "on_controller ref [] = []"
| "on_controller ref (OnController r e # es) =
     (if r = ref then e # on_controller ref es else on_controller ref es)"
| "on_controller ref (_ # es) = on_controller ref es"

fun http_requests :: "sdk_effect list \<Rightarrow> (string \<times> string) list" where
  "http_requests [] = []"
| "http_requests (HttpRequest m u # es) = (m, u) # http_requests es"
| "http_requests (_ # es) = http_requests es"

section \<open>Notions the properties are stated with\<close>

text \<open>
  A packet the normalizer recognises: it decodes, and its \<^verbatim>\<open>type\<close> is one of the
  three discriminators \<^verbatim>\<open>status\<close>, \<^verbatim>\<open>response\<close>, \<^verbatim>\<open>error\<close>.
\<close>

definition recognised :: "packet \<Rightarrow> bool" where
  "recognised payload =
     (case payload of
        Unparseable e \<Rightarrow> False
      | Parsed data \<Rightarrow>
          get_prop data ''type'' = Inr (Some (JStr ''status'')) \<or>
          get_prop data ''type'' = Inr (Some (JStr ''response'')) \<or>
          get_prop data ''type'' = Inr (Some (JStr ''error'')))"

text \<open>
  The room right after \<^verbatim>\<open>setupRoomEventHandlers\<close>, and after a \<^verbatim>\<open>connect\<close> that
  resolved (with the media listeners when an element was given).
\<close>

definition hooked_Room :: room_obj where
  "hooked_Room =
     \<lparr>listeners = [(TrackSubscribed, NormalizeTrack), (DataReceived, NormalizeData),
                   (Disconnected, NormalizeDisconnected),
                   (ConnectionQualityChanged, NormalizeQuality)]\<rparr>"

definition media_Room :: "element option \<Rightarrow> element option \<Rightarrow> room_obj" where
  "media_Room v a =
     (if v \<noteq> None \<or> a \<noteq> None
      then room_on TrackUnsubscribed DetachMedia
             (room_on TrackSubscribed (AttachMedia v a) hooked_Room)
      else hooked_Room)"

text \<open>
  How many times a room has the hook that turns \<^verbatim>\<open>Disconnected\<close> into
  \<^verbatim>\<open>session.ended\<close>: once for every room \<^verbatim>\<open>connect\<close> creates.
\<close>

definition ended_hooks :: "room_obj \<Rightarrow> nat" where
  "ended_hooks r = length (filter (\<lambda>nl. nl = (Disconnected, NormalizeDisconnected)) (listeners r))"

text \<open>The event a handler of \<^verbatim>\<open>session.ended\<close> receives from a controller.\<close>

definition ended_event :: "controller \<Rightarrow> session_event" where
  "ended_event c =
     \<lparr>ev_type = SESSION_EVENTS_ENDED, ev_session = session c, ev_data = SessionInfo (session c)\<rparr>"

text \<open>What one call of a handler leaves in the effects.\<close>

definition handler_effects :: "session_event \<Rightarrow> handler \<Rightarrow> effect list" where
  "handler_effects ev h =
     HandlerCall (hid h) ev # (case throws h of None \<Rightarrow> [] | Some e \<Rightarrow> [ConsoleError e])"

text \<open>
  A handler is inert when it makes no call back into the controller. It leaves the
  array of an event type in place when none of its calls is an \<^verbatim>\<open>off\<close> for that type.
\<close>

definition inert :: "handler \<Rightarrow> bool" where
  "inert h = (calls h = [])"

fun is_off :: "string \<Rightarrow> callback \<Rightarrow> bool" where
  "is_off event (CallOff e g) = (e = event)"
| "is_off event (CallOffSelf e) = (e = event)"
| "is_off event _ = False"

definition leaves_in_place :: "string \<Rightarrow> handler \<Rightarrow> bool" where
  "leaves_in_place event h = list_all (\<lambda>cb. \<not> is_off event cb) (calls h)"

text \<open>The chat envelope \<^verbatim>\<open>sendMessage\<close> publishes.\<close>

definition chat_envelope :: "string \<Rightarrow> effect" where
  "chat_envelope message =
     PublishData (JObj [(''type'', JStr ''chat''), (''text'', JStr message)]) True"

text \<open>The part of the log a call has added.\<close>

definition added :: "sdk \<Rightarrow> sdk \<Rightarrow> sdk_effect list" where
  "added w w' = drop (length (log w)) (log w')"

subsection \<open>Concrete inputs\<close>

definition demo_session :: "string \<Rightarrow> avatar_session" where
  "demo_session i = \<lparr>id_field = i, liveKitToken = Some ''tok'', liveKitUrl = Some ''wss://x''\<rparr>"

definition no_token_session :: avatar_session where
  "no_token_session = \<lparr>id_field = ''s1'', liveKitToken = None, liveKitUrl = Some ''wss://x''\<rparr>"

text \<open>
  Handlers: one that returns, one that throws, and one that removes itself from an event
  type when called (a listener meant to run once).
\<close>

definition quiet_handler :: "nat \<Rightarrow> handler" where
  "quiet_handler i = Handler i [] None"

definition failing_handler :: "nat \<Rightarrow> handler" where
  "failing_handler i = Handler i [] (Some (JsError ''boom''))"

definition once_handler :: "nat \<Rightarrow> string \<Rightarrow> handler" where
  "once_handler i event = Handler i [CallOffSelf event] None"

definition fresh_controller :: controller where
  "fresh_controller = new_AvatarSessionManager (demo_session ''s1'')"

definition connected_controller :: controller where
  "connected_controller = fst (snd (connect Resolves None None fresh_controller))"

text \<open>Answers of the transport to a teardown.\<close>

definition silent_teardown :: teardown where
  "silent_teardown = \<lparr>promise = Resolves, notifies = False\<rparr>"

definition notifying_teardown :: teardown where
  "notifying_teardown = \<lparr>promise = Resolves, notifies = True\<rparr>"

definition rejecting_teardown :: teardown where
  "rejecting_teardown = \<lparr>promise = Rejects (JsError ''socket closed''), notifies = True\<rparr>"

definition demo_api :: api_client where
  "demo_api = \<lparr>baseUrl = ''https://api.soulcypher.ai'', apiKey = ''key''\<rparr>"








text \<open>
  A facade with three sessions registered, each controller connected, and a transport
  that notifies every teardown and whose disconnect rejects for the second of them.
\<close>

definition held_controller :: "string \<Rightarrow> controller" where
  "held_controller i = (new_AvatarSessionManager (demo_session i))\<lparr>room := Some hooked_Room\<rparr>"

definition three_sessions :: sdk where
  "three_sessions =
     \<lparr>apiClient = demo_api,
      sessions = [(''s1'', 0), (''s2'', 1), (''s3'', 2)],
      objects = (\<lambda>ref. if ref = 0 then held_controller ''s1''
                        else if ref = 1 then held_controller ''s2''
                        else held_controller ''s3''),
      allocated = 3,
      log = []\<rparr>"

definition second_rejects :: "nat \<Rightarrow> teardown" where
  "second_rejects ref = (if ref = 1 then rejecting_teardown else notifying_teardown)"


lemmas event_names =
  SESSION_EVENTS_STARTED_def SESSION_EVENTS_ENDED_def AVATAR_EVENTS_VIDEO_def
  AVATAR_EVENTS_AUDIO_def AVATAR_EVENTS_RESPONSE_def AVATAR_EVENTS_STATUS_def
  AVATAR_EVENTS_ERROR_def CONNECTION_EVENTS_QUALITY_def

lemmas message_types =
  MESSAGE_TYPES_CHAT_def MESSAGE_TYPES_STATUS_def MESSAGE_TYPES_RESPONSE_def
  MESSAGE_TYPES_ERROR_def

section \<open>Properties of the controller\<close>

subsection \<open>Reading effect lists\<close>

lemma handler_calls_append: "handler_calls (xs @ ys) = handler_calls xs @ handler_calls ys"
  by (induction xs rule: handler_calls.induct) simp_all

lemma emitted_append: "emitted (xs @ ys) = emitted xs @ emitted ys"
  by (induction xs rule: emitted.induct) simp_all

lemma transport_io_Nil: "transport_io [] = []"
  by (simp add: transport_io_def)

lemma transport_io_Cons:
  "transport_io (e # es) = (if is_transport_io e then e # transport_io es else transport_io es)"
  by (simp add: transport_io_def)

lemma transport_io_append: "transport_io (xs @ ys) = transport_io xs @ transport_io ys"
  by (simp add: transport_io_def)

lemma handler_effects_read:
  "handler_calls (handler_effects ev h) = [(hid h, ev)]"
  "emitted (handler_effects ev h) = []"
  "transport_io (handler_effects ev h) = []"
  by (simp_all add: handler_effects_def transport_io_Cons transport_io_Nil split: option.splits)

subsection \<open>What on, off and a handler's calls back leave alone\<close>

lemma on_frame: "room (on e h c) = room c" "session (on e h c) = session c"
  by (simp_all add: on_def Let_def)

lemma off_frame: "room (off e h c) = room c" "session (off e h c) = session c"
  by (simp_all add: off_def split: option.splits)

lemma on_room: "on e h (c\<lparr>room := r\<rparr>) = (on e h c)\<lparr>room := r\<rparr>"
  by (simp add: on_def Let_def)

lemma off_room: "off e h (c\<lparr>room := r\<rparr>) = (off e h c)\<lparr>room := r\<rparr>"
  by (simp add: off_def split: option.splits)

lemma handlers_of_room: "handlers_of (c\<lparr>room := r\<rparr>) e = handlers_of c e"
  by (simp add: handlers_of_def)

lemma run_callback_frame:
  "room (run_callback h cb c) = room c" "session (run_callback h cb c) = session c"
  by (cases cb; simp add: on_frame off_frame)+

lemma run_callback_room: "run_callback h cb (c\<lparr>room := r\<rparr>) = (run_callback h cb c)\<lparr>room := r\<rparr>"
  by (cases cb) (simp_all add: on_room off_room)

lemma fold_callback_frame:
  "room (fold (run_callback h) cbs c) = room c \<and> session (fold (run_callback h) cbs c) = session c"
  by (induction cbs arbitrary: c) (simp_all add: run_callback_frame)

lemma fold_callback_room:
  "fold (run_callback h) cbs (c\<lparr>room := r\<rparr>) = (fold (run_callback h) cbs c)\<lparr>room := r\<rparr>"
  by (induction cbs arbitrary: c) (simp_all add: run_callback_room)

lemma call_handler_effects: "snd (call_handler ev h c) = handler_effects ev h"
  by (simp add: call_handler_def handler_effects_def)

lemma call_handler_frame:
  "room (fst (call_handler ev h c)) = room c" "session (fst (call_handler ev h c)) = session c"
  by (simp_all add: call_handler_def fold_callback_frame)

lemma call_handler_room:
  "call_handler ev h (c\<lparr>room := r\<rparr>) =
     ((fst (call_handler ev h c))\<lparr>room := r\<rparr>, snd (call_handler ev h c))"
  by (simp add: call_handler_def fold_callback_room)

lemma call_handler_inert: "inert h \<Longrightarrow> call_handler ev h c = (c, handler_effects ev h)"
  by (simp add: call_handler_def handler_effects_def inert_def)

subsection \<open>The walk over the handlers\<close>

lemma forEach_from_read:
  "emitted (snd (forEach_from ty ev k n c)) = []
   \<and> transport_io (snd (forEach_from ty ev k n c)) = []
   \<and> room (fst (forEach_from ty ev k n c)) = room c
   \<and> session (fst (forEach_from ty ev k n c)) = session c"
proof (induction n arbitrary: k c)
  case 0
  show ?case by (simp add: transport_io_Nil)
next
  case (Suc n)
  show ?case
    using Suc.IH[of "Suc k" c] Suc.IH[of "Suc k" "fst (call_handler ev (handlers_of c ty ! k) c)"]
    by (simp add: case_prod_beta emitted_append transport_io_append call_handler_effects
        handler_effects_read call_handler_frame)
qed

lemma forEach_from_room:
  "forEach_from ty ev k n (c\<lparr>room := r\<rparr>) =
     ((fst (forEach_from ty ev k n c))\<lparr>room := r\<rparr>, snd (forEach_from ty ev k n c))"
proof (induction n arbitrary: k c)
  case 0
  show ?case by simp
next
  case (Suc n)
  show ?case
    by (simp add: case_prod_beta handlers_of_room call_handler_room Suc.IH)
qed

lemma forEach_from_count:
  "length (handler_calls (snd (forEach_from ty ev k n c))) \<le> n"
proof (induction n arbitrary: k c)
  case 0
  show ?case by simp
next
  case (Suc n)
  show ?case
    using Suc.IH[of "Suc k" c] Suc.IH[of "Suc k" "fst (call_handler ev (handlers_of c ty ! k) c)"]
    by (simp add: case_prod_beta handler_calls_append call_handler_effects handler_effects_read
        le_SucI)
qed

text \<open>With inert handlers the array does not move: every index is visited as it was.\<close>

lemma forEach_from_inert:
  "list_all inert (handlers_of c ty) \<Longrightarrow>
   forEach_from ty ev k n c =
     (c, concat (map (handler_effects ev) (take n (drop k (handlers_of c ty)))))"
proof (induction n arbitrary: k)
  case 0
  show ?case by simp
next
  case (Suc n)
  show ?case
  proof (cases "k < length (handlers_of c ty)")
    case True
    then have i: "inert (handlers_of c ty ! k)"
      using Suc.prems by (simp add: list_all_length)
    have d: "drop k (handlers_of c ty) = handlers_of c ty ! k # drop (Suc k) (handlers_of c ty)"
      using True by (simp add: Cons_nth_drop_Suc)
    show ?thesis
      using True Suc.IH[OF Suc.prems, of "Suc k"]
      by (simp add: call_handler_inert[OF i] d)
  next
    case False
    then show ?thesis
      using Suc.IH[OF Suc.prems, of "Suc k"] by simp
  qed
qed

text \<open>
  A handler none of whose calls is an \<^verbatim>\<open>off\<close> for the type can only append to the
  type's array.
\<close>

lemma run_callback_appends:
  "\<not> is_off ty cb \<Longrightarrow> \<exists>xs. handlers_of (run_callback h cb c) ty = handlers_of c ty @ xs"
proof (cases cb)
  case (CallOn e g)
  show ?thesis
    by (cases "e = ty") (simp_all add: CallOn handlers_of_def on_def Let_def split: option.splits)
next
  case (CallOff e g)
  assume "\<not> is_off ty cb"
  with CallOff have "e \<noteq> ty" by simp
  then show ?thesis
    by (simp add: CallOff handlers_of_def off_def split: option.splits)
next
  case (CallOnSelf e)
  show ?thesis
    by (cases "e = ty") (simp_all add: CallOnSelf handlers_of_def on_def Let_def split: option.splits)
next
  case (CallOffSelf e)
  assume "\<not> is_off ty cb"
  with CallOffSelf have "e \<noteq> ty" by simp
  then show ?thesis
    by (simp add: CallOffSelf handlers_of_def off_def split: option.splits)
qed

lemma fold_callback_appends:
  "list_all (\<lambda>cb. \<not> is_off ty cb) cbs \<Longrightarrow>
   \<exists>xs. handlers_of (fold (run_callback h) cbs c) ty = handlers_of c ty @ xs"
proof (induction cbs arbitrary: c)
  case Nil
  show ?case by simp
next
  case (Cons cb cbs)
  from Cons.prems have a: "\<not> is_off ty cb" and b: "list_all (\<lambda>cb. \<not> is_off ty cb) cbs"
    by simp_all
  obtain xs where x: "handlers_of (run_callback h cb c) ty = handlers_of c ty @ xs"
    using run_callback_appends[OF a] by blast
  obtain ys where y: "handlers_of (fold (run_callback h) cbs (run_callback h cb c)) ty
      = handlers_of (run_callback h cb c) ty @ ys"
    using Cons.IH[OF b] by blast
  show ?case by (simp add: x y)
qed

lemma call_handler_appends:
  "leaves_in_place ty h \<Longrightarrow>
   \<exists>xs. handlers_of (fst (call_handler ev h c)) ty = handlers_of c ty @ xs"
  using fold_callback_appends[of ty "calls h" h c]
  by (simp add: call_handler_def leaves_in_place_def)

lemma forEach_from_in_place:
  "k + n \<le> length (handlers_of c ty) \<Longrightarrow>
   list_all (leaves_in_place ty) (take (k + n) (handlers_of c ty)) \<Longrightarrow>
   handler_calls (snd (forEach_from ty ev k n c))
     = map (\<lambda>h. (hid h, ev)) (take n (drop k (handlers_of c ty)))"
proof (induction n arbitrary: k c)
  case 0
  show ?case by simp
next
  case (Suc n)
  let ?hs = "handlers_of c ty"
  let ?h = "?hs ! k"
  let ?c1 = "fst (call_handler ev ?h c)"
  from Suc.prems(1) have k: "k < length ?hs" by simp
  have "?h \<in> set (take (k + Suc n) ?hs)"
    using k by (simp add: in_set_conv_nth) (metis k length_take less_add_Suc1 min_less_iff_conj
        nth_take Suc.prems(1) add_Suc_right le_imp_less_Suc not_less_eq_eq)
  then have lp: "leaves_in_place ty ?h"
    using Suc.prems(2) by (simp add: list_all_iff)
  obtain xs where x: "handlers_of ?c1 ty = ?hs @ xs"
    using call_handler_appends[OF lp] by blast
  have len: "Suc k + n \<le> length (handlers_of ?c1 ty)"
    using Suc.prems(1) by (simp add: x)
  have tk: "take (Suc k + n) (handlers_of ?c1 ty) = take (k + Suc n) ?hs"
    using Suc.prems(1) by (simp add: x)
  have all: "list_all (leaves_in_place ty) (take (Suc k + n) (handlers_of ?c1 ty))"
    unfolding tk by (rule Suc.prems(2))
  have dr: "take n (drop (Suc k) (handlers_of ?c1 ty)) = take n (drop (Suc k) ?hs)"
    using Suc.prems(1) by (simp add: x)
  have d: "drop k ?hs = ?h # drop (Suc k) ?hs"
    using k by (simp add: Cons_nth_drop_Suc)
  show ?case
    using k Suc.IH[OF len all]
    by (simp add: case_prod_beta handler_calls_append call_handler_effects handler_effects_read
        dr d)
qed

subsection \<open>emitEvent\<close>

lemma emitEvent_read:
  "emitted (snd (emitEvent ty d c)) = [ty]"
  "transport_io (snd (emitEvent ty d c)) = []"
  "room (fst (emitEvent ty d c)) = room c"
  "session (fst (emitEvent ty d c)) = session c"
  using forEach_from_read[of ty _ 0 _ c]
  by (simp_all add: emitEvent_def case_prod_beta transport_io_Cons transport_io_Nil
      split: option.splits)

lemma emitEvent_room:
  "emitEvent ty d (c\<lparr>room := r\<rparr>) = ((fst (emitEvent ty d c))\<lparr>room := r\<rparr>, snd (emitEvent ty d c))"
  by (simp add: emitEvent_def case_prod_beta forEach_from_room split: option.splits)

lemma emitEvent_inert:
  "list_all inert (handlers_of c ty) \<Longrightarrow>
   emitEvent ty d c =
     (c, EmitEvent ty d #
         concat (map (handler_effects \<lparr>ev_type = ty, ev_session = session c, ev_data = d\<rparr>)
                   (handlers_of c ty)))"
  by (cases "eventHandlers c ty")
     (simp_all add: emitEvent_def forEach_from_inert, simp_all add: handlers_of_def)

lemma handler_calls_concat:
  "handler_calls (concat (map (handler_effects ev) hs)) = map (\<lambda>h. (hid h, ev)) hs"
  by (induction hs) (simp_all add: handler_calls_append handler_effects_read)

lemma emitEvent_in_place:
  "list_all (leaves_in_place ty) (handlers_of c ty) \<Longrightarrow>
   handler_calls (snd (emitEvent ty d c)) =
     map (\<lambda>h. (hid h, \<lparr>ev_type = ty, ev_session = session c, ev_data = d\<rparr>)) (handlers_of c ty)"
proof (cases "eventHandlers c ty")
  case None
  then show ?thesis by (simp add: emitEvent_def handlers_of_def)
next
  case (Some hs)
  assume a: "list_all (leaves_in_place ty) (handlers_of c ty)"
  have hs: "handlers_of c ty = hs" by (simp add: handlers_of_def Some)
  have "handler_calls (snd (forEach_from ty \<lparr>ev_type = ty, ev_session = session c, ev_data = d\<rparr>
            0 (length hs) c))
      = map (\<lambda>h. (hid h, \<lparr>ev_type = ty, ev_session = session c, ev_data = d\<rparr>))
          (take (length hs) (drop 0 (handlers_of c ty)))"
    using a by (intro forEach_from_in_place) (simp_all add: hs)
  then show ?thesis
    by (simp add: emitEvent_def Some case_prod_beta hs)
qed

lemma emitEvent_count:
  "length (handler_calls (snd (emitEvent ty d c))) \<le> length (handlers_of c ty)"
  using forEach_from_count[of ty _ 0 "length (handlers_of c ty)" c]
  by (cases "eventHandlers c ty") (simp_all add: emitEvent_def case_prod_beta handlers_of_def)

subsection \<open>on, off and dispatch\<close>

lemma handlers_of_on: "handlers_of (on e h c) e = handlers_of c e @ [h]"
  by (simp add: on_def handlers_of_def Let_def split: option.splits)

lemma handlers_of_on_other: "e' \<noteq> e \<Longrightarrow> handlers_of (on e h c) e' = handlers_of c e'"
  by (simp add: on_def handlers_of_def Let_def)

lemma off_absent: "h \<notin> set (handlers_of c e) \<Longrightarrow> off e h c = c"
  by (simp add: off_def handlers_of_def split: option.splits)

lemma off_present:
  "h \<in> set (handlers_of c e) \<Longrightarrow> handlers_of (off e h c) e = remove1 h (handlers_of c e)"
  by (auto simp: off_def handlers_of_def split: option.splits)

lemma fresh_controller_fields:
  "room fresh_controller = None"
  "session fresh_controller = demo_session ''s1''"
  "liveKitToken (demo_session i) = Some ''tok''"
  "liveKitUrl (demo_session i) = Some ''wss://x''"
  "handlers_of fresh_controller e = []"
  by (simp_all add: fresh_controller_def new_AvatarSessionManager_def demo_session_def
      handlers_of_def)

lemma onDataReceived_returns: "fst (onDataReceived payload p c) = Inr ()"
  by (simp add: onDataReceived_def split: sum.splits packet.splits prod.splits)

lemma disconnect_turn_resolves: "fst (disconnect_turn c) = Inr ()"
  by (simp add: disconnect_turn_def case_prod_beta Let_def split: option.splits)

lemma disconnect_resolves: "fst (disconnect t c) = Inr ()"
  by (simp add: disconnect_def case_prod_beta disconnect_turn_resolves)

text \<open>
  C6, as stated, fails. Register for one event type a handler that removes itself when
  called, then a second handler, and emit: \<^verbatim>\<open>forEach\<close> walks the array that \<^verbatim>\<open>off\<close>
  has just spliced, the second handler has moved to the index already visited, and it is
  never called.
\<close>

theorem self_removing_handler_skips_next:
  "handlers_of (on ''avatar.response'' (quiet_handler 20)
                 (on ''avatar.response'' (once_handler 10 ''avatar.response'') fresh_controller))
     ''avatar.response''
     = [once_handler 10 ''avatar.response'', quiet_handler 20]
   \<and> handler_calls (snd (emitEvent ''avatar.response'' (TextInfo (Some (JStr ''hi'')) ''bot'')
        (on ''avatar.response'' (quiet_handler 20)
          (on ''avatar.response'' (once_handler 10 ''avatar.response'') fresh_controller))))
     = [(10, \<lparr>ev_type = ''avatar.response'', ev_session = demo_session ''s1'',
               ev_data = TextInfo (Some (JStr ''hi'')) ''bot''\<rparr>)]
   \<and> handlers_of (fst (emitEvent ''avatar.response'' (TextInfo (Some (JStr ''hi'')) ''bot'')
        (on ''avatar.response'' (quiet_handler 20)
          (on ''avatar.response'' (once_handler 10 ''avatar.response'') fresh_controller))))
        ''avatar.response''
     = [quiet_handler 20]
   \<and> \<not> (handler_calls (snd (emitEvent ''avatar.response'' (TextInfo (Some (JStr ''hi'')) ''bot'')
        (on ''avatar.response'' (quiet_handler 20)
          (on ''avatar.response'' (once_handler 10 ''avatar.response'') fresh_controller))))
        = map (\<lambda>h. (hid h, \<lparr>ev_type = ''avatar.response'', ev_session = demo_session ''s1'',
                             ev_data = TextInfo (Some (JStr ''hi'')) ''bot''\<rparr>))
            [once_handler 10 ''avatar.response'', quiet_handler 20])"
proof -
  let ?once = "once_handler 10 ''avatar.response''"
  let ?c = "on ''avatar.response'' (quiet_handler 20) (on ''avatar.response'' ?once fresh_controller)"
  let ?ev = "\<lparr>ev_type = ''avatar.response'', ev_session = demo_session ''s1'',
               ev_data = TextInfo (Some (JStr ''hi'')) ''bot''\<rparr>"
  have hs: "handlers_of ?c ''avatar.response'' = [?once, quiet_handler 20]"
    by (simp add: handlers_of_on fresh_controller_fields)
  have eh: "eventHandlers ?c ''avatar.response'' = Some [?once, quiet_handler 20]"
    by (simp add: on_def Let_def fresh_controller_def new_AvatarSessionManager_def)
  have s: "session ?c = demo_session ''s1''"
    by (simp add: on_frame fresh_controller_fields)
  have ne: "?once \<noteq> quiet_handler 20"
    by (simp add: once_handler_def quiet_handler_def)
  have c1: "fst (call_handler ?ev ?once ?c) = off ''avatar.response'' ?once ?c"
    by (simp add: call_handler_def once_handler_def)
  have hs1: "handlers_of (off ''avatar.response'' ?once ?c) ''avatar.response'' = [quiet_handler 20]"
    by (simp add: off_present hs)
  have walk: "forEach_from ''avatar.response'' ?ev 0 (Suc (Suc 0)) ?c
      = (off ''avatar.response'' ?once ?c, handler_effects ?ev ?once)"
    by (simp add: hs case_prod_beta c1 hs1 call_handler_effects)
  have e: "emitEvent ''avatar.response'' (TextInfo (Some (JStr ''hi'')) ''bot'') ?c
      = (off ''avatar.response'' ?once ?c,
         EmitEvent ''avatar.response'' (TextInfo (Some (JStr ''hi'')) ''bot'') # handler_effects ?ev ?once)"
    using walk by (simp add: emitEvent_def eh s)
  have id: "hid ?once = 10"
    by (simp add: once_handler_def)
  show ?thesis
    unfolding e hs by (simp add: hs1 handler_effects_read id)
qed

text \<open>
  C6, amended. Handlers registered with \<open>on\<close> for one event type are kept in
  registration order, and \<open>emitEvent\<close> calls them all, in that order, provided none of
  them calls \<open>off\<close> for that event type while the event is being dispatched (they may
  register handlers, and call \<open>off\<close> for other types); in any case it calls no more
  handlers than were registered when it began. \<open>off\<close> with a handler that is not
  registered changes nothing, and otherwise removes its first registration. A handler that
  throws is called like the others, its throw is logged, the handlers after it are still
  called, and the operations that emit (here \<open>disconnect\<close> and the data hook) return
  normally.
\<close>

theorem handlers_in_registration_order:
  "handlers_of (on e h2 (on e h1 c)) e = handlers_of c e @ [h1, h2]
   \<and> (list_all (leaves_in_place e) (handlers_of c e) \<longrightarrow>
        handler_calls (snd (emitEvent e d c)) =
          map (\<lambda>h. (hid h, \<lparr>ev_type = e, ev_session = session c, ev_data = d\<rparr>)) (handlers_of c e))
   \<and> (list_all inert (handlers_of c e) \<longrightarrow>
        emitEvent e d c =
          (c, EmitEvent e d #
              concat (map (handler_effects \<lparr>ev_type = e, ev_session = session c, ev_data = d\<rparr>)
                        (handlers_of c e))))
   \<and> length (handler_calls (snd (emitEvent e d c))) \<le> length (handlers_of c e)
   \<and> (h \<notin> set (handlers_of c e) \<longrightarrow> off e h c = c)
   \<and> (h \<in> set (handlers_of c e) \<longrightarrow> handlers_of (off e h c) e = remove1 h (handlers_of c e))
   \<and> (throws h = Some x \<longrightarrow> handler_effects ev h = [HandlerCall (hid h) ev, ConsoleError x])
   \<and> fst (disconnect t c) = Inr ()
   \<and> fst (onDataReceived payload p c) = Inr ()"
  by (simp add: handlers_of_on off_absent off_present emitEvent_in_place emitEvent_inert
      emitEvent_count handler_effects_def disconnect_resolves onDataReceived_returns)

theorem handlers_in_registration_order_witness:
  "handlers_of (on ''avatar.response'' (quiet_handler 30)
                 (on ''avatar.response'' (failing_handler 20)
                   (on ''avatar.response'' (quiet_handler 10) fresh_controller))) ''avatar.response''
     = [quiet_handler 10, failing_handler 20, quiet_handler 30]
   \<and> list_all inert [quiet_handler 10, failing_handler 20, quiet_handler 30]
   \<and> emitEvent ''avatar.response'' (TextInfo (Some (JStr ''hi'')) ''bot'')
        (on ''avatar.response'' (quiet_handler 30)
          (on ''avatar.response'' (failing_handler 20)
            (on ''avatar.response'' (quiet_handler 10) fresh_controller)))
     = (on ''avatar.response'' (quiet_handler 30)
          (on ''avatar.response'' (failing_handler 20)
            (on ''avatar.response'' (quiet_handler 10) fresh_controller)),
        [EmitEvent ''avatar.response'' (TextInfo (Some (JStr ''hi'')) ''bot''),
         HandlerCall 10 \<lparr>ev_type = ''avatar.response'', ev_session = demo_session ''s1'',
                         ev_data = TextInfo (Some (JStr ''hi'')) ''bot''\<rparr>,
         HandlerCall 20 \<lparr>ev_type = ''avatar.response'', ev_session = demo_session ''s1'',
                         ev_data = TextInfo (Some (JStr ''hi'')) ''bot''\<rparr>,
         ConsoleError (JsError ''boom''),
         HandlerCall 30 \<lparr>ev_type = ''avatar.response'', ev_session = demo_session ''s1'',
                         ev_data = TextInfo (Some (JStr ''hi'')) ''bot''\<rparr>])
   \<and> off ''avatar.response'' (quiet_handler 70)
        (on ''avatar.response'' (failing_handler 20) (on ''avatar.response'' (quiet_handler 10) fresh_controller))
     = on ''avatar.response'' (failing_handler 20) (on ''avatar.response'' (quiet_handler 10) fresh_controller)
   \<and> handlers_of (off ''avatar.response'' (quiet_handler 10)
        (on ''avatar.response'' (failing_handler 20) (on ''avatar.response'' (quiet_handler 10) fresh_controller)))
        ''avatar.response''
     = [failing_handler 20]"
proof -
  let ?c1 = "on ''avatar.response'' (quiet_handler 10) fresh_controller"
  let ?c2 = "on ''avatar.response'' (failing_handler 20) ?c1"
  let ?c3 = "on ''avatar.response'' (quiet_handler 30) ?c2"
  let ?d = "TextInfo (Some (JStr ''hi'')) ''bot''"
  have none: "handlers_of fresh_controller ''avatar.response'' = []"
    by (simp add: fresh_controller_fields)
  have two: "handlers_of ?c2 ''avatar.response'' = [quiet_handler 10, failing_handler 20]"
    using handlers_in_registration_order[where e="''avatar.response''" and c=fresh_controller
        and ?h1.0="quiet_handler 10" and ?h2.0="failing_handler 20"]
    by (simp add: none)
  have three: "handlers_of ?c3 ''avatar.response''
      = [quiet_handler 10, failing_handler 20, quiet_handler 30]"
    by (simp add: handlers_of_on none)
  have s: "session ?c3 = demo_session ''s1''"
    by (simp add: on_frame fresh_controller_fields)
  have inert3: "list_all inert [quiet_handler 10, failing_handler 20, quiet_handler 30]"
    by (simp add: inert_def quiet_handler_def failing_handler_def)
  have inert3': "list_all inert (handlers_of ?c3 ''avatar.response'')"
    unfolding three by (rule inert3)
  have "emitEvent ''avatar.response'' ?d ?c3 =
          (?c3, EmitEvent ''avatar.response'' ?d #
              concat (map (handler_effects \<lparr>ev_type = ''avatar.response'', ev_session = session ?c3,
                                            ev_data = ?d\<rparr>)
                        (handlers_of ?c3 ''avatar.response'')))"
    using handlers_in_registration_order[where e="''avatar.response''" and c="?c3" and d="?d"]
      inert3'
    by blast
  then have calls: "emitEvent ''avatar.response'' ?d ?c3 =
      (?c3, [EmitEvent ''avatar.response'' ?d,
         HandlerCall 10 \<lparr>ev_type = ''avatar.response'', ev_session = demo_session ''s1'',
                         ev_data = ?d\<rparr>,
         HandlerCall 20 \<lparr>ev_type = ''avatar.response'', ev_session = demo_session ''s1'',
                         ev_data = ?d\<rparr>,
         ConsoleError (JsError ''boom''),
         HandlerCall 30 \<lparr>ev_type = ''avatar.response'', ev_session = demo_session ''s1'',
                         ev_data = ?d\<rparr>])"
    unfolding three s
    by (simp add: handler_effects_def quiet_handler_def failing_handler_def)
  have nin: "quiet_handler 70 \<notin> set (handlers_of ?c2 ''avatar.response'')"
    unfolding two by (simp add: quiet_handler_def failing_handler_def)
  have absent: "off ''avatar.response'' (quiet_handler 70) ?c2 = ?c2"
    using handlers_in_registration_order[where e="''avatar.response''" and c="?c2"
        and h="quiet_handler 70"] nin
    by blast
  have isin: "quiet_handler 10 \<in> set (handlers_of ?c2 ''avatar.response'')"
    unfolding two by simp
  have "handlers_of (off ''avatar.response'' (quiet_handler 10) ?c2) ''avatar.response''
      = remove1 (quiet_handler 10) (handlers_of ?c2 ''avatar.response'')"
    using handlers_in_registration_order[where e="''avatar.response''" and c="?c2"
        and h="quiet_handler 10"] isin
    by blast
  then have present: "handlers_of (off ''avatar.response'' (quiet_handler 10) ?c2) ''avatar.response''
      = [failing_handler 20]"
    by (simp add: two)
  show ?thesis
    by (intro conjI) (fact three inert3 calls absent present)+
qed

subsection \<open>The data hook\<close>

lemma dropped_effects:
  "\<not> recognised payload \<Longrightarrow>
   (\<exists>e. onDataReceived payload p c = (Inr (), c, [ConsoleWarn e]))
   \<or> onDataReceived payload p c = (Inr (), c, [])"
  by (auto simp: recognised_def onDataReceived_def dispatch_data_def message_types
      split: packet.splits sum.splits)

lemma run_listener_data_dropped:
  "\<not> recognised payload \<Longrightarrow>
   fst (run_listener l (EvDataReceived payload p) c) = c
   \<and> emitted (snd (run_listener l (EvDataReceived payload p) c)) = []
   \<and> handler_calls (snd (run_listener l (EvDataReceived payload p) c)) = []"
  using dropped_effects[of payload p c]
  by (cases l) auto

lemma run_listeners_data_dropped:
  "\<not> recognised payload \<Longrightarrow>
   fst (run_listeners ls (EvDataReceived payload p) c) = c
   \<and> emitted (snd (run_listeners ls (EvDataReceived payload p) c)) = []
   \<and> handler_calls (snd (run_listeners ls (EvDataReceived payload p) c)) = []"
proof (induction ls)
  case Nil
  show ?case by simp
next
  case (Cons l ls)
  show ?case
    using run_listener_data_dropped[OF Cons.prems, of l p c] Cons.IH[OF Cons.prems]
    by (simp add: case_prod_beta emitted_append handler_calls_append)
qed

text \<open>
  C5. A packet that does not decode, or whose \<^verbatim>\<open>type\<close> is none of \<^verbatim>\<open>status\<close>,
  \<^verbatim>\<open>response\<close>, \<^verbatim>\<open>error\<close>, makes the data hook return normally without emitting an
  event or calling a handler, and leaves the controller as it was; the same holds of the
  whole notification, on whatever room it is raised.
\<close>

theorem unrecognised_packet_dropped:
  "\<not> recognised payload \<longrightarrow>
     fst (onDataReceived payload p c) = Inr ()
     \<and> fst (snd (onDataReceived payload p c)) = c
     \<and> emitted (snd (snd (onDataReceived payload p c))) = []
     \<and> handler_calls (snd (snd (onDataReceived payload p c))) = []
     \<and> fst (room_emit (EvDataReceived payload p) r c) = c
     \<and> emitted (snd (room_emit (EvDataReceived payload p) r c)) = []
     \<and> handler_calls (snd (room_emit (EvDataReceived payload p) r c)) = []"
  using dropped_effects[of payload p c]
    run_listeners_data_dropped[of payload
      "map snd (filter (\<lambda>nl. fst nl = event_name (EvDataReceived payload p)) (listeners r))" p c]
  by (auto simp: room_emit_def)

theorem unrecognised_packet_dropped_witness:
  "\<not> recognised (Unparseable (JsError ''Unexpected token''))
   \<and> onDataReceived (Unparseable (JsError ''Unexpected token'')) ''bot''
        (on ''avatar.response'' (quiet_handler 10) connected_controller)
       = (Inr (), on ''avatar.response'' (quiet_handler 10) connected_controller,
          [ConsoleWarn (JsError ''Unexpected token'')])
   \<and> emitted (snd (room_emit (EvDataReceived (Unparseable (JsError ''Unexpected token'')) ''bot'')
        hooked_Room (on ''avatar.response'' (quiet_handler 10) connected_controller))) = []
   \<and> \<not> recognised (Parsed (JObj [(''type'', JStr ''chat''), (''text'', JStr ''hi'')]))
   \<and> onDataReceived (Parsed (JObj [(''type'', JStr ''chat''), (''text'', JStr ''hi'')])) ''bot''
        (on ''avatar.response'' (quiet_handler 10) connected_controller)
       = (Inr (), on ''avatar.response'' (quiet_handler 10) connected_controller, [])
   \<and> \<not> recognised (Parsed JNull)
   \<and> onDataReceived (Parsed JNull) ''bot'' (on ''avatar.response'' (quiet_handler 10) connected_controller)
       = (Inr (), on ''avatar.response'' (quiet_handler 10) connected_controller,
          [ConsoleWarn (null_TypeError ''type'')])"
proof -
  let ?c = "on ''avatar.response'' (quiet_handler 10) connected_controller"
  have n1: "\<not> recognised (Unparseable (JsError ''Unexpected token''))"
    and n2: "\<not> recognised (Parsed (JObj [(''type'', JStr ''chat''), (''text'', JStr ''hi'')]))"
    and n3: "\<not> recognised (Parsed JNull)"
    by (simp_all add: recognised_def)
  have a: "onDataReceived (Unparseable (JsError ''Unexpected token'')) ''bot'' ?c
       = (Inr (), ?c, [ConsoleWarn (JsError ''Unexpected token'')])"
    by (simp add: onDataReceived_def)
  have b: "onDataReceived (Parsed (JObj [(''type'', JStr ''chat''), (''text'', JStr ''hi'')])) ''bot'' ?c
       = (Inr (), ?c, [])"
    by (simp add: onDataReceived_def dispatch_data_def message_types)
  have c: "onDataReceived (Parsed JNull) ''bot'' ?c = (Inr (), ?c, [ConsoleWarn (null_TypeError ''type'')])"
    by (simp add: onDataReceived_def dispatch_data_def)
  have e: "emitted (snd (room_emit (EvDataReceived (Unparseable (JsError ''Unexpected token'')) ''bot'')
        hooked_Room ?c)) = []"
    using unrecognised_packet_dropped[where payload="Unparseable (JsError ''Unexpected token'')"
        and p="''bot''" and r=hooked_Room and c="?c"] n1
    by blast
  show ?thesis
    by (intro conjI) (fact n1 a e n2 b n3 c)+
qed

subsection \<open>Notifications on a room\<close>

lemma run_listener_disconnected:
  "emitted (snd (run_listener l EvDisconnected c))
     = (if l = NormalizeDisconnected then [SESSION_EVENTS_ENDED] else [])
   \<and> transport_io (snd (run_listener l EvDisconnected c)) = []
   \<and> room (fst (run_listener l EvDisconnected c)) = room c
   \<and> session (fst (run_listener l EvDisconnected c)) = session c"
  by (cases l) (simp_all add: emitEvent_read transport_io_Nil)

lemma run_listeners_disconnected:
  "emitted (snd (run_listeners ls EvDisconnected c))
     = replicate (length (filter (\<lambda>l. l = NormalizeDisconnected) ls)) SESSION_EVENTS_ENDED
   \<and> transport_io (snd (run_listeners ls EvDisconnected c)) = []
   \<and> room (fst (run_listeners ls EvDisconnected c)) = room c
   \<and> session (fst (run_listeners ls EvDisconnected c)) = session c"
proof (induction ls arbitrary: c)
  case Nil
  show ?case by (simp add: transport_io_Nil)
next
  case (Cons l ls)
  show ?case
    using run_listener_disconnected[of l c] Cons.IH[of "fst (run_listener l EvDisconnected c)"]
    by (simp add: case_prod_beta emitted_append transport_io_append)
qed

lemma ended_hooks_filter:
  "length (filter (\<lambda>l. l = NormalizeDisconnected)
             (map snd (filter (\<lambda>nl. fst nl = Disconnected) ls)))
   = length (filter (\<lambda>nl. nl = (Disconnected, NormalizeDisconnected)) ls)"
  by (induction ls) auto

lemma room_emit_disconnected_all:
  "emitted (snd (room_emit EvDisconnected r c)) = replicate (ended_hooks r) SESSION_EVENTS_ENDED
   \<and> transport_io (snd (room_emit EvDisconnected r c)) = []
   \<and> room (fst (room_emit EvDisconnected r c)) = room c
   \<and> session (fst (room_emit EvDisconnected r c)) = session c"
proof -
  have n: "event_name EvDisconnected = Disconnected" by simp
  show ?thesis
    unfolding room_emit_def ended_hooks_def n
    using run_listeners_disconnected[of
        "map snd (filter (\<lambda>nl. fst nl = Disconnected) (listeners r))" c]
    unfolding ended_hooks_filter by blast
qed

lemma room_emit_disconnected:
  "emitted (snd (room_emit EvDisconnected r c)) = replicate (ended_hooks r) SESSION_EVENTS_ENDED"
  "transport_io (snd (room_emit EvDisconnected r c)) = []"
  "room (fst (room_emit EvDisconnected r c)) = room c"
  "session (fst (room_emit EvDisconnected r c)) = session c"
  using room_emit_disconnected_all[of r c] by blast+

lemma ended_hooks_connect: "ended_hooks hooked_Room = 1" "ended_hooks (media_Room v a) = 1"
  by (simp_all add: ended_hooks_def hooked_Room_def media_Room_def room_on_def)

text \<open>On a room that \<^verbatim>\<open>connect\<close> made, the notification is one \<^verbatim>\<open>emitEvent\<close>.\<close>

lemma room_emit_disconnected_media:
  "room_emit EvDisconnected (media_Room v a) c
     = emitEvent SESSION_EVENTS_ENDED (SessionInfo (session c)) c"
  by (simp add: room_emit_def hooked_Room_def room_on_def media_Room_def case_prod_beta)

subsection \<open>disconnect\<close>

lemma disconnect_turn_eq:
  "disconnect_turn c =
     (Inr (),
      (fst (emitEvent SESSION_EVENTS_ENDED (SessionInfo (session c)) c))\<lparr>room := None\<rparr>,
      (case room c of None \<Rightarrow> [] | Some r \<Rightarrow> [RoomDisconnect])
      @ snd (emitEvent SESSION_EVENTS_ENDED (SessionInfo (session c)) c))"
proof (cases "room c")
  case None
  have "(fst (emitEvent SESSION_EVENTS_ENDED (SessionInfo (session c)) c))\<lparr>room := None\<rparr>
      = fst (emitEvent SESSION_EVENTS_ENDED (SessionInfo (session c)) c)"
    using emitEvent_read(3)[of SESSION_EVENTS_ENDED "SessionInfo (session c)" c] None by simp
  then show ?thesis
    by (simp add: disconnect_turn_def None case_prod_beta)
next
  case (Some r)
  then show ?thesis
    by (simp add: disconnect_turn_def case_prod_beta Let_def emitEvent_room)
qed

lemma disconnect_turn_read:
  "room (fst (snd (disconnect_turn c))) = None"
  "session (fst (snd (disconnect_turn c))) = session c"
  "emitted (snd (snd (disconnect_turn c))) = [SESSION_EVENTS_ENDED]"
  "transport_io (snd (snd (disconnect_turn c))) = (if room c = None then [] else [RoomDisconnect])"
  by (cases "room c";
      simp add: disconnect_turn_eq emitEvent_read emitted_append transport_io_append
        transport_io_Cons transport_io_Nil)+

lemma disconnect_turn_inert:
  "list_all inert (handlers_of c SESSION_EVENTS_ENDED) \<Longrightarrow>
   fst (snd (disconnect_turn c)) = c\<lparr>room := None\<rparr>
   \<and> handler_calls (snd (snd (disconnect_turn c)))
       = map (\<lambda>h. (hid h, ended_event c)) (handlers_of c SESSION_EVENTS_ENDED)"
  by (cases "room c")
     (simp_all add: disconnect_turn_eq emitEvent_inert handler_calls_append handler_calls_concat
        ended_event_def)

lemma transport_teardown_read:
  "emitted (snd (transport_teardown t held c))
     = (case held of
          None \<Rightarrow> []
        | Some r \<Rightarrow> if notifies t then replicate (ended_hooks r) SESSION_EVENTS_ENDED else [])"
  "transport_io (snd (transport_teardown t held c)) = []"
  "room (fst (transport_teardown t held c)) = room c"
  "session (fst (transport_teardown t held c)) = session c"
  by (cases held; cases "promise t";
      simp add: transport_teardown_def case_prod_beta room_emit_disconnected emitted_append
        transport_io_append transport_io_Cons transport_io_Nil)+

lemma transport_teardown_silent:
  "\<not> notifies t \<Longrightarrow> fst (transport_teardown t held c) = c"
  "held = None \<Longrightarrow> transport_teardown t held c = (c, [])"
  by (simp_all add: transport_teardown_def split: option.splits)

lemma disconnect_eq:
  "disconnect t c =
     (Inr (),
      fst (transport_teardown t (room c) (fst (snd (disconnect_turn c)))),
      snd (snd (disconnect_turn c))
      @ snd (transport_teardown t (room c) (fst (snd (disconnect_turn c)))))"
  using disconnect_turn_resolves[of c]
  by (simp add: disconnect_def case_prod_beta)

lemma disconnect_read:
  "room (fst (snd (disconnect t c))) = None"
  "session (fst (snd (disconnect t c))) = session c"
  "transport_io (snd (snd (disconnect t c))) = (if room c = None then [] else [RoomDisconnect])"
  "emitted (snd (snd (disconnect t c)))
     = SESSION_EVENTS_ENDED #
       (case room c of
          None \<Rightarrow> []
        | Some r \<Rightarrow> if notifies t then replicate (ended_hooks r) SESSION_EVENTS_ENDED else [])"
  by (simp_all add: disconnect_eq transport_teardown_read disconnect_turn_read emitted_append
      transport_io_append)

text \<open>
  C4, as stated, fails on a connected controller. The hooks that \<^verbatim>\<open>connect\<close> registered
  stay on the room that \<open>disconnect\<close> drops, so when the transport answers the teardown
  with its \<^verbatim>\<open>Disconnected\<close> notification the hook emits \<^verbatim>\<open>session.ended\<close> again:
  one call, two events, the handler called twice.
\<close>

theorem disconnect_connected_emits_twice:
  "room (on ''session.ended'' (quiet_handler 10) connected_controller) = Some hooked_Room
   \<and> emitted (snd (snd (disconnect notifying_teardown
                           (on ''session.ended'' (quiet_handler 10) connected_controller))))
       = [''session.ended'', ''session.ended'']
   \<and> handler_calls (snd (snd (disconnect notifying_teardown
                                 (on ''session.ended'' (quiet_handler 10) connected_controller))))
       = [(10, \<lparr>ev_type = ''session.ended'', ev_session = demo_session ''s1'',
                 ev_data = SessionInfo (demo_session ''s1'')\<rparr>),
          (10, \<lparr>ev_type = ''session.ended'', ev_session = demo_session ''s1'',
                 ev_data = SessionInfo (demo_session ''s1'')\<rparr>)]
   \<and> \<not> (emitted (snd (snd (disconnect notifying_teardown
                               (on ''session.ended'' (quiet_handler 10) connected_controller))))
           = [''session.ended''])"
proof -
  let ?c = "on ''session.ended'' (quiet_handler 10) connected_controller"
  let ?ev = "\<lparr>ev_type = ''session.ended'', ev_session = demo_session ''s1'',
               ev_data = SessionInfo (demo_session ''s1'')\<rparr>"
  have cc: "connected_controller = fresh_controller\<lparr>room := Some hooked_Room\<rparr>"
    by (simp add: connected_controller_def connect_def fresh_controller_def
        new_AvatarSessionManager_def demo_session_def setupRoomEventHandlers_def new_Room_def
        room_on_def hooked_Room_def Let_def emitEvent_def)
  have r: "room ?c = Some hooked_Room"
    by (simp add: on_frame cc)
  have s: "session ?c = demo_session ''s1''"
    by (simp add: on_frame cc fresh_controller_fields)
  have hs: "handlers_of ?c ''session.ended'' = [quiet_handler 10]"
    by (simp add: handlers_of_on cc handlers_of_room fresh_controller_fields)
  have i: "list_all inert (handlers_of c' ''session.ended'')"
    if "handlers_of c' ''session.ended'' = [quiet_handler 10]" for c'
    by (simp add: that inert_def quiet_handler_def)
  have e1: "emitEvent ''session.ended'' (SessionInfo (demo_session ''s1'')) ?c
      = (?c, [EmitEvent ''session.ended'' (SessionInfo (demo_session ''s1'')), HandlerCall 10 ?ev])"
    using emitEvent_inert[OF i[OF hs], of "SessionInfo (demo_session ''s1'')"]
    unfolding hs s by (simp add: handler_effects_def quiet_handler_def)
  have turn: "disconnect_turn ?c =
      (Inr (), ?c\<lparr>room := None\<rparr>,
       [RoomDisconnect, EmitEvent ''session.ended'' (SessionInfo (demo_session ''s1'')),
        HandlerCall 10 ?ev])"
    by (simp add: disconnect_turn_eq SESSION_EVENTS_ENDED_def s e1 r)
  have hs': "handlers_of (?c\<lparr>room := None\<rparr>) ''session.ended'' = [quiet_handler 10]"
    by (simp add: handlers_of_room hs)
  have s': "session (?c\<lparr>room := None\<rparr>) = demo_session ''s1''"
    using s by simp
  have e2: "emitEvent ''session.ended'' (SessionInfo (demo_session ''s1'')) (?c\<lparr>room := None\<rparr>)
      = (?c\<lparr>room := None\<rparr>,
         [EmitEvent ''session.ended'' (SessionInfo (demo_session ''s1'')), HandlerCall 10 ?ev])"
    using emitEvent_inert[OF i[OF hs'], of "SessionInfo (demo_session ''s1'')"]
    unfolding hs' s' by (simp add: handler_effects_def quiet_handler_def)
  have later: "transport_teardown notifying_teardown (Some hooked_Room) (?c\<lparr>room := None\<rparr>)
      = (?c\<lparr>room := None\<rparr>,
         [EmitEvent ''session.ended'' (SessionInfo (demo_session ''s1'')), HandlerCall 10 ?ev])"
    using room_emit_disconnected_media[of None None "?c\<lparr>room := None\<rparr>"]
    by (simp add: transport_teardown_def notifying_teardown_def media_Room_def
        SESSION_EVENTS_ENDED_def s e2)
  have d: "snd (snd (disconnect notifying_teardown ?c)) =
      [RoomDisconnect, EmitEvent ''session.ended'' (SessionInfo (demo_session ''s1'')),
       HandlerCall 10 ?ev,
       EmitEvent ''session.ended'' (SessionInfo (demo_session ''s1'')), HandlerCall 10 ?ev]"
    by (simp add: disconnect_eq turn r later)
  show ?thesis
    unfolding d by (simp add: r)
qed

text \<open>
  C4, amended. Whatever the controller's state and however the transport answers,
  \<open>disconnect\<close> returns normally, leaves the controller without a room (the session
  untouched), and calls the transport's disconnect exactly when a room was held. Its own
  body emits \<^verbatim>\<open>session.ended\<close> exactly once per call. Nothing more is emitted on a
  controller that held no room (never connected, or a repeated call) or when the transport
  does not notify; on a controller holding a room that \<^verbatim>\<open>connect\<close> made, a transport
  that notifies the teardown makes the hook left on that room emit \<^verbatim>\<open>session.ended\<close>
  once more, so that call delivers two.
\<close>

theorem disconnect_never_throws_emits_once:
  "fst (disconnect t c) = Inr ()
   \<and> room (fst (snd (disconnect t c))) = None
   \<and> session (fst (snd (disconnect t c))) = session c
   \<and> transport_io (snd (snd (disconnect t c))) = (if room c = None then [] else [RoomDisconnect])
   \<and> emitted (snd (snd (disconnect_turn c))) = [SESSION_EVENTS_ENDED]
   \<and> emitted (snd (snd (disconnect t c)))
       = SESSION_EVENTS_ENDED #
         (case room c of
            None \<Rightarrow> []
          | Some r \<Rightarrow> if notifies t then replicate (ended_hooks r) SESSION_EVENTS_ENDED else [])
   \<and> (room c = None \<or> \<not> notifies t \<longrightarrow>
        emitted (snd (snd (disconnect t c))) = [SESSION_EVENTS_ENDED])
   \<and> (room c = Some (media_Room v a) \<and> notifies t \<longrightarrow>
        emitted (snd (snd (disconnect t c))) = [SESSION_EVENTS_ENDED, SESSION_EVENTS_ENDED])
   \<and> (list_all inert (handlers_of c SESSION_EVENTS_ENDED) \<longrightarrow>
        fst (snd (disconnect_turn c)) = c\<lparr>room := None\<rparr>
        \<and> handler_calls (snd (snd (disconnect_turn c)))
            = map (\<lambda>h. (hid h, ended_event c)) (handlers_of c SESSION_EVENTS_ENDED))
   \<and> fst (disconnect t' (fst (snd (disconnect t c)))) = Inr ()
   \<and> transport_io (snd (snd (disconnect t' (fst (snd (disconnect t c)))))) = []
   \<and> emitted (snd (snd (disconnect t' (fst (snd (disconnect t c)))))) = [SESSION_EVENTS_ENDED]"
proof -
  have again: "transport_io (snd (snd (disconnect t' (fst (snd (disconnect t c)))))) = []"
    "emitted (snd (snd (disconnect t' (fst (snd (disconnect t c)))))) = [SESSION_EVENTS_ENDED]"
    using disconnect_read(3,4)[of t' "fst (snd (disconnect t c))"] disconnect_read(1)[of t c]
    by simp_all
  have once: "room c = None \<or> \<not> notifies t \<longrightarrow>
        emitted (snd (snd (disconnect t c))) = [SESSION_EVENTS_ENDED]"
    by (auto simp: disconnect_read split: option.splits)
  have twice: "room c = Some (media_Room v a) \<and> notifies t \<longrightarrow>
        emitted (snd (snd (disconnect t c))) = [SESSION_EVENTS_ENDED, SESSION_EVENTS_ENDED]"
    by (auto simp: disconnect_read ended_hooks_connect)
  show ?thesis
    using again once twice disconnect_turn_inert[of c]
    by (simp add: disconnect_resolves disconnect_read disconnect_turn_read)
qed

theorem disconnect_never_throws_emits_once_witness:
  "room fresh_controller = None
   \<and> fst (disconnect rejecting_teardown fresh_controller) = Inr ()
   \<and> emitted (snd (snd (disconnect rejecting_teardown fresh_controller))) = [''session.ended'']
   \<and> transport_io (snd (snd (disconnect rejecting_teardown fresh_controller))) = []
   \<and> room connected_controller = Some (media_Room None None)
   \<and> notifies rejecting_teardown
   \<and> fst (disconnect rejecting_teardown connected_controller) = Inr ()
   \<and> room (fst (snd (disconnect rejecting_teardown connected_controller))) = None
   \<and> transport_io (snd (snd (disconnect rejecting_teardown connected_controller)))
       = [RoomDisconnect]
   \<and> emitted (snd (snd (disconnect rejecting_teardown connected_controller)))
       = [''session.ended'', ''session.ended'']
   \<and> \<not> notifies silent_teardown
   \<and> emitted (snd (snd (disconnect silent_teardown connected_controller))) = [''session.ended'']
   \<and> emitted (snd (snd (disconnect notifying_teardown
        (fst (snd (disconnect rejecting_teardown connected_controller))))))
       = [''session.ended'']
   \<and> transport_io (snd (snd (disconnect notifying_teardown
        (fst (snd (disconnect rejecting_teardown connected_controller))))))
       = []"
proof -
  have r0: "room fresh_controller = None"
    by (simp add: fresh_controller_fields)
  have cc: "connected_controller = fresh_controller\<lparr>room := Some hooked_Room\<rparr>"
    by (simp add: connected_controller_def connect_def fresh_controller_def
        new_AvatarSessionManager_def demo_session_def setupRoomEventHandlers_def new_Room_def
        room_on_def hooked_Room_def Let_def emitEvent_def)
  have r: "room connected_controller = Some (media_Room None None)"
    by (simp add: cc media_Room_def)
  have n: "notifies rejecting_teardown" "\<not> notifies silent_teardown"
    by (simp_all add: rejecting_teardown_def silent_teardown_def)
  note A = disconnect_never_throws_emits_once[where c=fresh_controller and t=rejecting_teardown]
  note B = disconnect_never_throws_emits_once[where c=connected_controller
      and t=rejecting_teardown and t'=notifying_teardown and v=None and a=None]
  note C = disconnect_never_throws_emits_once[where c=connected_controller and t=silent_teardown]
  from A r0 have a1: "fst (disconnect rejecting_teardown fresh_controller) = Inr ()"
    and a2: "emitted (snd (snd (disconnect rejecting_teardown fresh_controller)))
        = [SESSION_EVENTS_ENDED]"
    and a3: "transport_io (snd (snd (disconnect rejecting_teardown fresh_controller)))
        = (if room fresh_controller = None then [] else [RoomDisconnect])"
    by blast+
  from B r n have b1: "fst (disconnect rejecting_teardown connected_controller) = Inr ()"
    and b2: "room (fst (snd (disconnect rejecting_teardown connected_controller))) = None"
    and b3: "transport_io (snd (snd (disconnect rejecting_teardown connected_controller)))
        = (if room connected_controller = None then [] else [RoomDisconnect])"
    and b4: "emitted (snd (snd (disconnect rejecting_teardown connected_controller)))
        = [SESSION_EVENTS_ENDED, SESSION_EVENTS_ENDED]"
    and b5: "emitted (snd (snd (disconnect notifying_teardown
        (fst (snd (disconnect rejecting_teardown connected_controller))))))
        = [SESSION_EVENTS_ENDED]"
    and b6: "transport_io (snd (snd (disconnect notifying_teardown
        (fst (snd (disconnect rejecting_teardown connected_controller)))))) = []"
    by blast+
  from C n have c1: "emitted (snd (snd (disconnect silent_teardown connected_controller)))
        = [SESSION_EVENTS_ENDED]"
    by blast
  have a3': "transport_io (snd (snd (disconnect rejecting_teardown fresh_controller))) = []"
    unfolding a3 by (simp add: r0)
  have b3': "transport_io (snd (snd (disconnect rejecting_teardown connected_controller)))
        = [RoomDisconnect]"
    unfolding b3 by (simp add: r)
  show ?thesis
    using r0 a1 a2 a3' r n b1 b2 b3' b4 c1 b5 b6
    unfolding SESSION_EVENTS_ENDED_def by (intro conjI)
qed

subsection \<open>connect\<close>

lemma setup_fresh:
  "setupRoomEventHandlers (c\<lparr>room := Some new_Room\<rparr>) = c\<lparr>room := Some hooked_Room\<rparr>"
  by (simp add: setupRoomEventHandlers_def new_Room_def room_on_def hooked_Room_def)

lemma connect_missing:
  "falsy (liveKitToken (session c)) \<or> falsy (liveKitUrl (session c)) \<Longrightarrow>
   connect t v a c = (Inl (ConnectionError ''LiveKit connection details not available''), c, [])"
  by (simp add: connect_def)

lemma connect_rejected:
  "\<not> falsy (liveKitToken (session c)) \<Longrightarrow> \<not> falsy (liveKitUrl (session c)) \<Longrightarrow>
   connect (Rejects e) v a c =
     (Inl (ConnectionError (''Failed to connect to LiveKit: '' @ message_or_unknown e)),
      c\<lparr>room := Some hooked_Room\<rparr>,
      [RoomConnect (the (liveKitUrl (session c))) (the (liveKitToken (session c)))])"
  by (simp add: connect_def setup_fresh Let_def)

lemma connect_resolved:
  "\<not> falsy (liveKitToken (session c)) \<Longrightarrow> \<not> falsy (liveKitUrl (session c)) \<Longrightarrow>
   connect Resolves v a c =
     (Inr (),
      (fst (emitEvent SESSION_EVENTS_STARTED (SessionInfo (session c)) c))
        \<lparr>room := Some (media_Room v a)\<rparr>,
      RoomConnect (the (liveKitUrl (session c))) (the (liveKitToken (session c))) #
      snd (emitEvent SESSION_EVENTS_STARTED (SessionInfo (session c)) c))"
  by (simp add: connect_def setup_fresh Let_def setupMediaElements_def media_Room_def
      emitEvent_room case_prod_beta)

lemma connect_ignores_room:
  "\<not> falsy (liveKitToken (session c)) \<Longrightarrow> \<not> falsy (liveKitUrl (session c)) \<Longrightarrow>
   connect t v a (c\<lparr>room := r\<rparr>) = connect t v a c"
  by (cases t) (simp_all add: connect_resolved connect_rejected emitEvent_room)

lemma connected_controller_eq:
  "connected_controller = fresh_controller\<lparr>room := Some hooked_Room\<rparr>"
  by (simp add: connected_controller_def connect_resolved fresh_controller_fields media_Room_def
      emitEvent_def fresh_controller_def new_AvatarSessionManager_def)

text \<open>
  C10. After a \<open>connect\<close> that resolved, the transport's \<^verbatim>\<open>Disconnected\<close>
  notification emits \<^verbatim>\<open>session.ended\<close> once and leaves the room in place, and a
  \<open>disconnect\<close> after it emits \<^verbatim>\<open>session.ended\<close> once more in its own body (and a
  third time if the transport notifies that teardown too): at least two events for the one
  controller, and every inert handler of \<^verbatim>\<open>session.ended\<close> called once for each.
\<close>

theorem session_ended_emitted_twice:
  assumes "\<not> falsy (liveKitToken (session c))" and "\<not> falsy (liveKitUrl (session c))"
    and "c1 = fst (snd (connect Resolves v a c))"
    and "c2 = fst (room_emit EvDisconnected (media_Room v a) c1)"
  shows "fst (connect Resolves v a c) = Inr ()
       \<and> room c1 = Some (media_Room v a)
       \<and> emitted (snd (room_emit EvDisconnected (media_Room v a) c1)) = [SESSION_EVENTS_ENDED]
       \<and> room c2 = Some (media_Room v a)
       \<and> emitted (snd (snd (disconnect_turn c2))) = [SESSION_EVENTS_ENDED]
       \<and> emitted (snd (room_emit EvDisconnected (media_Room v a) c1) @ snd (snd (disconnect t c2)))
           = SESSION_EVENTS_ENDED # SESSION_EVENTS_ENDED #
             (if notifies t then [SESSION_EVENTS_ENDED] else [])
       \<and> (list_all inert (handlers_of c SESSION_EVENTS_STARTED)
          \<and> list_all inert (handlers_of c SESSION_EVENTS_ENDED) \<longrightarrow>
            handler_calls (snd (room_emit EvDisconnected (media_Room v a) c1)
                           @ snd (snd (disconnect t c2)))
              = map (\<lambda>h. (hid h, ended_event c)) (handlers_of c SESSION_EVENTS_ENDED)
                @ map (\<lambda>h. (hid h, ended_event c)) (handlers_of c SESSION_EVENTS_ENDED)
                @ (if notifies t
                   then map (\<lambda>h. (hid h, ended_event c)) (handlers_of c SESSION_EVENTS_ENDED)
                   else []))"
proof -
  let ?M = "media_Room v a"
  have res: "fst (connect Resolves v a c) = Inr ()"
    by (simp add: connect_resolved[OF assms(1,2)])
  have r1: "room c1 = Some ?M"
    by (simp add: assms(3) connect_resolved[OF assms(1,2)])
  have r2: "room c2 = Some ?M"
    by (simp add: assms(4) room_emit_disconnected r1)
  have e1: "emitted (snd (room_emit EvDisconnected ?M c1)) = [SESSION_EVENTS_ENDED]"
    by (simp add: room_emit_disconnected ended_hooks_connect)
  have e2: "emitted (snd (snd (disconnect t c2)))
      = SESSION_EVENTS_ENDED # (if notifies t then [SESSION_EVENTS_ENDED] else [])"
    by (simp add: disconnect_read r2 ended_hooks_connect)
  have calls: "handler_calls (snd (room_emit EvDisconnected ?M c1) @ snd (snd (disconnect t c2)))
              = map (\<lambda>h. (hid h, ended_event c)) (handlers_of c SESSION_EVENTS_ENDED)
                @ map (\<lambda>h. (hid h, ended_event c)) (handlers_of c SESSION_EVENTS_ENDED)
                @ (if notifies t
                   then map (\<lambda>h. (hid h, ended_event c)) (handlers_of c SESSION_EVENTS_ENDED)
                   else [])"
    if st: "list_all inert (handlers_of c SESSION_EVENTS_STARTED)"
      and en: "list_all inert (handlers_of c SESSION_EVENTS_ENDED)"
  proof -
    let ?calls = "map (\<lambda>h. (hid h, ended_event c)) (handlers_of c SESSION_EVENTS_ENDED)"
    have c1: "c1 = c\<lparr>room := Some ?M\<rparr>"
      by (simp add: assms(3) connect_resolved[OF assms(1,2)] emitEvent_inert[OF st])
    have en1: "list_all inert (handlers_of (c\<lparr>room := x\<rparr>) SESSION_EVENTS_ENDED)" for x
      using en by (simp add: handlers_of_room)
    have em: "emitEvent SESSION_EVENTS_ENDED (SessionInfo (session c)) (c\<lparr>room := x\<rparr>)
        = (c\<lparr>room := x\<rparr>,
           EmitEvent SESSION_EVENTS_ENDED (SessionInfo (session c)) #
           concat (map (handler_effects (ended_event c)) (handlers_of c SESSION_EVENTS_ENDED)))" for x
      using emitEvent_inert[OF en1[of x], of "SessionInfo (session c)"]
      by (simp add: handlers_of_room ended_event_def)
    have n1: "room_emit EvDisconnected ?M c1
        = (c1, EmitEvent SESSION_EVENTS_ENDED (SessionInfo (session c)) #
               concat (map (handler_effects (ended_event c)) (handlers_of c SESSION_EVENTS_ENDED)))"
      by (simp add: room_emit_disconnected_media c1 em)
    have c2: "c2 = c\<lparr>room := Some ?M\<rparr>"
      by (simp add: assms(4) n1) (simp add: c1)
    have turn: "handler_calls (snd (snd (disconnect_turn c2))) = ?calls"
      "fst (snd (disconnect_turn c2)) = c\<lparr>room := None\<rparr>"
      using disconnect_turn_inert[OF en1[of "Some ?M"]]
      by (simp_all add: c2 handlers_of_room ended_event_def)
    have later: "handler_calls (snd (transport_teardown t (Some ?M) (c\<lparr>room := None\<rparr>)))
        = (if notifies t then ?calls else [])"
      by (cases "promise t")
         (simp_all add: transport_teardown_def case_prod_beta room_emit_disconnected_media em
            handler_calls_append handler_calls_concat)
    show ?thesis
      by (simp add: handler_calls_append n1 handler_calls_concat disconnect_eq turn r2 later)
  qed
  show ?thesis
    using res r1 e1 r2 calls
    by (simp add: emitted_append e2 disconnect_turn_read)
qed

theorem session_ended_emitted_twice_witness:
  "emitted (snd (room_emit EvDisconnected (media_Room None None)
             (fst (snd (connect Resolves None None
                          (on ''session.ended'' (quiet_handler 10) fresh_controller)))))
           @ snd (snd (disconnect silent_teardown
               (fst (room_emit EvDisconnected (media_Room None None)
                 (fst (snd (connect Resolves None None
                              (on ''session.ended'' (quiet_handler 10) fresh_controller)))))))))
     = [''session.ended'', ''session.ended'']
   \<and> handler_calls (snd (room_emit EvDisconnected (media_Room None None)
             (fst (snd (connect Resolves None None
                          (on ''session.ended'' (quiet_handler 10) fresh_controller)))))
           @ snd (snd (disconnect silent_teardown
               (fst (room_emit EvDisconnected (media_Room None None)
                 (fst (snd (connect Resolves None None
                              (on ''session.ended'' (quiet_handler 10) fresh_controller)))))))))
     = [(10, \<lparr>ev_type = ''session.ended'', ev_session = demo_session ''s1'',
               ev_data = SessionInfo (demo_session ''s1'')\<rparr>),
        (10, \<lparr>ev_type = ''session.ended'', ev_session = demo_session ''s1'',
               ev_data = SessionInfo (demo_session ''s1'')\<rparr>)]"
proof -
  let ?c = "on ''session.ended'' (quiet_handler 10) fresh_controller"
  have s: "session ?c = demo_session ''s1''"
    by (simp add: on_frame fresh_controller_fields)
  have hs: "handlers_of ?c ''session.ended'' = [quiet_handler 10]"
    by (simp add: handlers_of_on fresh_controller_fields)
  have hs0: "handlers_of ?c ''session.started'' = []"
    by (simp add: handlers_of_on_other fresh_controller_fields)
  have ok: "\<not> falsy (liveKitToken (session ?c))" "\<not> falsy (liveKitUrl (session ?c))"
    by (simp_all add: s fresh_controller_fields)
  have n: "\<not> notifies silent_teardown"
    by (simp add: silent_teardown_def)
  have i: "list_all inert (handlers_of ?c SESSION_EVENTS_STARTED)"
    "list_all inert (handlers_of ?c SESSION_EVENTS_ENDED)"
    unfolding SESSION_EVENTS_STARTED_def SESSION_EVENTS_ENDED_def hs hs0
    by (simp_all add: inert_def quiet_handler_def)
  note T = session_ended_emitted_twice[OF ok refl refl, of None None silent_teardown]
  from T n i have a: "emitted (snd (room_emit EvDisconnected (media_Room None None)
             (fst (snd (connect Resolves None None ?c))))
           @ snd (snd (disconnect silent_teardown
               (fst (room_emit EvDisconnected (media_Room None None)
                 (fst (snd (connect Resolves None None ?c))))))))
       = SESSION_EVENTS_ENDED # SESSION_EVENTS_ENDED #
             (if notifies silent_teardown then [SESSION_EVENTS_ENDED] else [])"
    and b: "handler_calls (snd (room_emit EvDisconnected (media_Room None None)
             (fst (snd (connect Resolves None None ?c))))
           @ snd (snd (disconnect silent_teardown
               (fst (room_emit EvDisconnected (media_Room None None)
                 (fst (snd (connect Resolves None None ?c))))))))
       = map (\<lambda>h. (hid h, ended_event ?c)) (handlers_of ?c SESSION_EVENTS_ENDED)
                @ map (\<lambda>h. (hid h, ended_event ?c)) (handlers_of ?c SESSION_EVENTS_ENDED)
                @ (if notifies silent_teardown
                   then map (\<lambda>h. (hid h, ended_event ?c)) (handlers_of ?c SESSION_EVENTS_ENDED)
                   else [])"
    by blast+
  show ?thesis
    unfolding a b
    unfolding SESSION_EVENTS_ENDED_def ended_event_def hs s
    by (simp add: n quiet_handler_def)
qed

text \<open>
  C2, as stated, fails. A controller that never held a room, with credential and URL
  present, is left by a rejected transport connect holding the room that \<open>connect\<close>
  created, hooks registered: it is not the controller it was, and a \<open>sendMessage\<close> on it
  goes to the transport. This holds although the transport reports \<^verbatim>\<open>disconnected\<close>.
\<close>

theorem failed_connect_keeps_room:
  "fst (connect (Rejects (JsError ''timeout'')) None None fresh_controller)
     = Inl (ConnectionError ''Failed to connect to LiveKit: timeout'')
   \<and> room fresh_controller = None
   \<and> room (fst (snd (connect (Rejects (JsError ''timeout'')) None None fresh_controller)))
       = Some hooked_Room
   \<and> getStatus ''disconnected''
        (fst (snd (connect (Rejects (JsError ''timeout'')) None None fresh_controller)))
       = ''disconnected''
   \<and> sendMessage Resolves ''hi''
        (fst (snd (connect (Rejects (JsError ''timeout'')) None None fresh_controller)))
       = (Inr (), fresh_controller\<lparr>room := Some hooked_Room\<rparr>, [chat_envelope ''hi''])
   \<and> \<not> (isl (fst (connect (Rejects (JsError ''timeout'')) None None fresh_controller)) \<longrightarrow>
           getStatus ''disconnected''
             (fst (snd (connect (Rejects (JsError ''timeout'')) None None fresh_controller)))
             = ''disconnected''
           \<and> fst (snd (connect (Rejects (JsError ''timeout'')) None None fresh_controller))
               = fresh_controller)"
proof -
  have c: "connect (Rejects (JsError ''timeout'')) None None fresh_controller =
      (Inl (ConnectionError ''Failed to connect to LiveKit: timeout''),
       fresh_controller\<lparr>room := Some hooked_Room\<rparr>, [RoomConnect ''wss://x'' ''tok''])"
    by (simp add: connect_rejected fresh_controller_fields)
  have ne: "fresh_controller\<lparr>room := Some hooked_Room\<rparr> \<noteq> fresh_controller"
  proof
    assume "fresh_controller\<lparr>room := Some hooked_Room\<rparr> = fresh_controller"
    then have "room (fresh_controller\<lparr>room := Some hooked_Room\<rparr>) = room fresh_controller"
      by simp
    then show False by (simp add: fresh_controller_fields)
  qed
  show ?thesis
    by (simp add: c ne fresh_controller_fields getStatus_def sendMessage_def chat_envelope_def
        MESSAGE_TYPES_CHAT_def)
qed

text \<open>
  C2, amended. A \<open>connect\<close> on a session without credential or URL fails with the
  connection-setup error, touches nothing and calls nothing, so a controller without a room
  still reports \<^verbatim>\<open>disconnected\<close>. A \<open>connect\<close> whose transport connect rejects
  fails with a connection error carrying the cause's message and changes the controller in
  one place: it now holds the room created for the attempt, so \<open>getStatus\<close> reports that
  room's state as the transport gives it (\<^verbatim>\<open>disconnected\<close> when the transport says
  so); session and handlers are as before. A later \<open>connect\<close> does not look at the room
  held: it behaves as on the controller before the failed attempt.
\<close>

theorem failed_connect_state:
  "(falsy (liveKitToken (session c)) \<or> falsy (liveKitUrl (session c)) \<longrightarrow>
      connect t v a c = (Inl (ConnectionError ''LiveKit connection details not available''), c, [])
      \<and> (room c = None \<longrightarrow> getStatus st (fst (snd (connect t v a c))) = ''disconnected''))
   \<and> (\<not> falsy (liveKitToken (session c)) \<and> \<not> falsy (liveKitUrl (session c)) \<longrightarrow>
        connect (Rejects e) v a c =
          (Inl (ConnectionError (''Failed to connect to LiveKit: '' @ message_or_unknown e)),
           c\<lparr>room := Some hooked_Room\<rparr>,
           [RoomConnect (the (liveKitUrl (session c))) (the (liveKitToken (session c)))])
        \<and> getStatus ''disconnected'' (fst (snd (connect (Rejects e) v a c))) = ''disconnected''
        \<and> connect t' v' a' (fst (snd (connect (Rejects e) v a c))) = connect t' v' a' c)"
  by (simp add: connect_missing connect_rejected connect_ignores_room getStatus_def)

theorem failed_connect_state_witness:
  "falsy (liveKitToken (session (new_AvatarSessionManager no_token_session)))
   \<and> connect Resolves None None (new_AvatarSessionManager no_token_session)
       = (Inl (ConnectionError ''LiveKit connection details not available''),
          new_AvatarSessionManager no_token_session, [])
   \<and> getStatus ''connected''
        (fst (snd (connect Resolves None None (new_AvatarSessionManager no_token_session))))
       = ''disconnected''
   \<and> connect (Rejects (JsError ''timeout'')) None None fresh_controller
       = (Inl (ConnectionError ''Failed to connect to LiveKit: timeout''),
          fresh_controller\<lparr>room := Some hooked_Room\<rparr>, [RoomConnect ''wss://x'' ''tok''])
   \<and> connect Resolves None None
        (fst (snd (connect (Rejects (JsError ''timeout'')) None None fresh_controller)))
       = connect Resolves None None fresh_controller"
proof -
  have n: "falsy (liveKitToken (session (new_AvatarSessionManager no_token_session)))"
    "room (new_AvatarSessionManager no_token_session) = None"
    by (simp_all add: new_AvatarSessionManager_def no_token_session_def)
  have f: "\<not> falsy (liveKitToken (session fresh_controller))"
    "\<not> falsy (liveKitUrl (session fresh_controller))"
    by (simp_all add: fresh_controller_fields)
  note A = failed_connect_state[where c="new_AvatarSessionManager no_token_session"
      and t=Resolves and v=None and a=None and st="''connected''"]
  note B = failed_connect_state[where c=fresh_controller and v=None and a=None
      and e="JsError ''timeout''" and t'=Resolves and v'=None and a'=None]
  from A n have a1: "connect Resolves None None (new_AvatarSessionManager no_token_session)
       = (Inl (ConnectionError ''LiveKit connection details not available''),
          new_AvatarSessionManager no_token_session, [])"
    and a2: "getStatus ''connected''
        (fst (snd (connect Resolves None None (new_AvatarSessionManager no_token_session))))
       = ''disconnected''"
    by blast+
  from B f have b1: "connect (Rejects (JsError ''timeout'')) None None fresh_controller =
          (Inl (ConnectionError (''Failed to connect to LiveKit: '' @ message_or_unknown (JsError ''timeout''))),
           fresh_controller\<lparr>room := Some hooked_Room\<rparr>,
           [RoomConnect (the (liveKitUrl (session fresh_controller)))
              (the (liveKitToken (session fresh_controller)))])"
    and b2: "connect Resolves None None
        (fst (snd (connect (Rejects (JsError ''timeout'')) None None fresh_controller)))
       = connect Resolves None None fresh_controller"
    by blast+
  have b1': "connect (Rejects (JsError ''timeout'')) None None fresh_controller
       = (Inl (ConnectionError ''Failed to connect to LiveKit: timeout''),
          fresh_controller\<lparr>room := Some hooked_Room\<rparr>, [RoomConnect ''wss://x'' ''tok''])"
    unfolding b1 by (simp add: fresh_controller_fields)
  show ?thesis
    by (intro conjI) (fact n(1) a1 a2 b1' b2)+
qed

subsection \<open>sendMessage\<close>

lemma sendMessage_no_room:
  "room c = None \<Longrightarrow> sendMessage t m c = (Inl (SessionError ''Not connected to session''), c, [])"
  by (simp add: sendMessage_def)

lemma sendMessage_room:
  "room c \<noteq> None \<Longrightarrow>
   sendMessage t m c =
     (case t of
        Resolves \<Rightarrow> Inr ()
      | Rejects e \<Rightarrow> Inl (SessionError (''Failed to send message: '' @ message_or_unknown e)),
      c, [chat_envelope m])"
  by (cases t) (auto simp: sendMessage_def chat_envelope_def MESSAGE_TYPES_CHAT_def)

text \<open>
  C3, as stated, fails. After a \<open>connect\<close> that resolved, let the transport drop the
  connection: it raises \<^verbatim>\<open>Disconnected\<close> and reports \<^verbatim>\<open>disconnected\<close>. The hook
  emits \<^verbatim>\<open>session.ended\<close> and the controller, room included, stays as it was. \<open>getStatus\<close> says \<^verbatim>\<open>disconnected\<close>,
  yet \<open>sendMessage\<close> raises no not-connected error: it publishes on the transport.
\<close>

theorem send_after_transport_drop:
  "emitted (snd (room_emit EvDisconnected hooked_Room connected_controller)) = [''session.ended'']
   \<and> fst (room_emit EvDisconnected hooked_Room connected_controller) = connected_controller
   \<and> getStatus ''disconnected'' connected_controller = ''disconnected''
   \<and> sendMessage Resolves ''hi'' connected_controller
       = (Inr (), connected_controller, [chat_envelope ''hi''])
   \<and> transport_io (snd (snd (sendMessage Resolves ''hi'' connected_controller)))
       = [chat_envelope ''hi'']
   \<and> \<not> (getStatus ''disconnected'' connected_controller \<noteq> ''connected'' \<longrightarrow>
           fst (sendMessage Resolves ''hi'' connected_controller)
             = Inl (SessionError ''Not connected to session'')
           \<and> transport_io (snd (snd (sendMessage Resolves ''hi'' connected_controller))) = [])"
proof -
  have r: "room connected_controller = Some hooked_Room"
    by (simp add: connected_controller_eq)
  have s: "sendMessage Resolves ''hi'' connected_controller
      = (Inr (), connected_controller, [chat_envelope ''hi''])"
    by (simp add: sendMessage_room r)
  have n: "room_emit EvDisconnected hooked_Room connected_controller
      = (connected_controller, [EmitEvent ''session.ended'' (SessionInfo (demo_session ''s1''))])"
    using room_emit_disconnected_media[of None None connected_controller]
    by (simp add: media_Room_def connected_controller_eq emitEvent_def fresh_controller_def
        new_AvatarSessionManager_def SESSION_EVENTS_ENDED_def)
  show ?thesis
    by (simp add: s n r getStatus_def transport_io_Cons transport_io_Nil chat_envelope_def)
qed

text \<open>
  C3, amended. \<open>sendMessage\<close> asks for a room to be held, not for a live connection. A
  controller without a room (never connected, or after \<open>disconnect\<close>) gets the
  not-connected error and nothing reaches the transport. A controller holding a room
  publishes the chat envelope, reliably, whatever state the transport is in; a publish that
  rejects comes back as a messaging error carrying the cause's message. In every case the
  controller is unchanged, and so is what \<open>getStatus\<close> reports.
\<close>

theorem sendMessage_needs_room:
  "(room c = None \<longrightarrow>
      sendMessage t m c = (Inl (SessionError ''Not connected to session''), c, [])
      \<and> transport_io (snd (snd (sendMessage t m c))) = [])
   \<and> (room c \<noteq> None \<longrightarrow>
        sendMessage Resolves m c = (Inr (), c, [chat_envelope m])
        \<and> sendMessage (Rejects e) m c =
            (Inl (SessionError (''Failed to send message: '' @ message_or_unknown e)), c,
             [chat_envelope m]))
   \<and> fst (snd (sendMessage t m c)) = c
   \<and> getStatus st (fst (snd (sendMessage t m c))) = getStatus st c"
proof -
  have same: "fst (snd (sendMessage t m c)) = c"
    by (cases "room c"; cases t) (simp_all add: sendMessage_def)
  show ?thesis
    by (simp add: same sendMessage_no_room sendMessage_room transport_io_Nil)
qed

theorem sendMessage_needs_room_witness:
  "room fresh_controller = None
   \<and> sendMessage Resolves ''hi'' fresh_controller
       = (Inl (SessionError ''Not connected to session''), fresh_controller, [])
   \<and> room connected_controller \<noteq> None
   \<and> sendMessage (Rejects (JsError ''channel closed'')) ''hi'' connected_controller
       = (Inl (SessionError ''Failed to send message: channel closed''), connected_controller,
          [chat_envelope ''hi''])
   \<and> getStatus ''connected''
        (fst (snd (sendMessage (Rejects (JsError ''channel closed'')) ''hi'' connected_controller)))
       = ''connected''"
proof -
  have r: "room connected_controller \<noteq> None" "room fresh_controller = None"
    by (simp_all add: connected_controller_eq fresh_controller_fields)
  have g: "getStatus ''connected'' connected_controller = ''connected''"
    using r by (auto simp: getStatus_def)
  note A = sendMessage_needs_room[where c=fresh_controller and t=Resolves and m="''hi''"]
  note B = sendMessage_needs_room[where c=connected_controller
      and t="Rejects (JsError ''channel closed'')" and m="''hi''"
      and e="JsError ''channel closed''" and st="''connected''"]
  from A r have a1: "sendMessage Resolves ''hi'' fresh_controller
       = (Inl (SessionError ''Not connected to session''), fresh_controller, [])"
    by blast
  from B r have b1: "sendMessage (Rejects (JsError ''channel closed'')) ''hi'' connected_controller
       = (Inl (SessionError (''Failed to send message: '' @ message_or_unknown (JsError ''channel closed''))),
          connected_controller, [chat_envelope ''hi''])"
    and b2: "getStatus ''connected''
        (fst (snd (sendMessage (Rejects (JsError ''channel closed'')) ''hi'' connected_controller)))
       = getStatus ''connected'' connected_controller"
    by blast+
  have b1': "sendMessage (Rejects (JsError ''channel closed'')) ''hi'' connected_controller
       = (Inl (SessionError ''Failed to send message: channel closed''), connected_controller,
          [chat_envelope ''hi''])"
    unfolding b1 by simp
  have b2': "getStatus ''connected''
        (fst (snd (sendMessage (Rejects (JsError ''channel closed'')) ''hi'' connected_controller)))
       = ''connected''"
    unfolding b2 by (fact g)
  show ?thesis
    by (intro conjI) (fact r a1 b1' b2')+
qed


section \<open>Properties of the gateway client\<close>

lemma request_effects:
  "snd (request net api endpoint verb) = [HttpRequest verb (baseUrl api @ ''/v1'' @ endpoint)]"
  by (simp add: request_def Let_def)

lemma request_rejected:
  "fst (request (FetchRejects e) api endpoint verb) = Inl (request_catch e)"
  by (simp add: request_def Let_def)

lemma request_not_ok:
  "\<not> ok r \<Longrightarrow>
   fst (request (FetchResolves r) api endpoint verb) = Inl (request_catch (handleErrorResponse r))"
  by (simp add: request_def Let_def)



lemma request_catch_other:
  "request_catch (JsError m) = SoulCypherError (''Request failed: '' @ m) (Some ''NETWORK_ERROR'') None"
  by (simp add: request_catch_def)





section \<open>Properties of the facade\<close>

subsection \<open>The registry as a map\<close>


lemma map_of_map_set_other: "k' \<noteq> k \<Longrightarrow> map_of (map_set k v m) k' = map_of m k'"
  by (induction m) auto

lemma map_of_map_delete: "map_of (map_delete k m) k = None"
  by (induction m) (auto simp: map_delete_def)

lemma map_of_map_delete_other: "k' \<noteq> k \<Longrightarrow> map_of (map_delete k m) k' = map_of m k'"
  by (induction m) (auto simp: map_delete_def)


subsection \<open>Reading the log\<close>

lemma on_controller_append: "on_controller r (xs @ ys) = on_controller r xs @ on_controller r ys"
  by (induction r xs rule: on_controller.induct) simp_all

lemma on_controller_map: "on_controller r (map (OnController r') es) = (if r = r' then es else [])"
  by (induction es) auto

lemma on_controller_concat:
  "distinct refs \<Longrightarrow>
   on_controller r (concat (map (\<lambda>r'. map (OnController r') (f r')) refs))
     = (if r \<in> set refs then f r else [])"
  by (induction refs) (auto simp: on_controller_append on_controller_map)

lemma http_requests_append: "http_requests (xs @ ys) = http_requests xs @ http_requests ys"
  by (induction xs rule: http_requests.induct) simp_all

lemma http_requests_map: "http_requests (map (OnController r) es) = []"
  by (induction es) simp_all

lemma http_requests_concat:
  "http_requests (concat (map (\<lambda>r'. map (OnController r') (f r')) refs)) = []"
  by (induction refs) (simp_all add: http_requests_append http_requests_map)

subsection \<open>getSession\<close>








subsection \<open>endSession\<close>

lemma room_emit_disconnected_inert:
  "list_all inert (handlers_of c SESSION_EVENTS_ENDED) \<Longrightarrow> fst (room_emit EvDisconnected r c) = c"
proof -
  assume i: "list_all inert (handlers_of c SESSION_EVENTS_ENDED)"
  have one: "fst (run_listener l EvDisconnected c) = c" for l
    by (cases l) (simp_all add: emitEvent_inert[OF i])
  have "fst (run_listeners ls EvDisconnected c) = c" for ls
    by (induction ls) (simp_all add: case_prod_beta one)
  then show ?thesis by (simp add: room_emit_def)
qed

lemma transport_teardown_inert:
  "list_all inert (handlers_of c SESSION_EVENTS_ENDED) \<Longrightarrow> fst (transport_teardown t held c) = c"
  by (cases held)
     (simp_all add: transport_teardown_def case_prod_beta room_emit_disconnected_inert)

lemma disconnect_inert:
  "list_all inert (handlers_of c SESSION_EVENTS_ENDED) \<Longrightarrow>
   fst (snd (disconnect t c)) = c\<lparr>room := None\<rparr>"
proof -
  assume i: "list_all inert (handlers_of c SESSION_EVENTS_ENDED)"
  have t: "fst (snd (disconnect_turn c)) = c\<lparr>room := None\<rparr>"
    using disconnect_turn_inert[OF i] by simp
  have "list_all inert (handlers_of (c\<lparr>room := None\<rparr>) SESSION_EVENTS_ENDED)"
    using i by (simp add: handlers_of_room)
  then show ?thesis
    by (simp add: disconnect_eq t transport_teardown_inert)
qed

lemma disconnect_ref_eq:
  "disconnect_ref ref w =
     (Inr (),
      logged (map (OnController ref) (snd (snd (disconnect_turn (objects w ref)))))
        (w\<lparr>objects := (objects w)(ref := fst (snd (disconnect_turn (objects w ref))))\<rparr>))"
  using disconnect_turn_resolves[of "objects w ref"]
  by (simp add: disconnect_ref_def case_prod_beta)

lemma teardown_ref_eq:
  "teardown_ref t ref held w =
     logged (map (OnController ref) (snd (transport_teardown t held (objects w ref))))
       (w\<lparr>objects := (objects w)(ref := fst (transport_teardown t held (objects w ref)))\<rparr>)"
  by (simp add: teardown_ref_def case_prod_beta)

lemma api_endSession_effects:
  "snd (api_endSession net api sid)
     = [HttpRequest ''POST'' (baseUrl api @ ''/v1/sessions/'' @ sid @ ''/end'')]"
  by (simp add: api_endSession_def request_effects)

lemma remote_endSession_eq:
  "remote_endSession net sid w =
     (fst (api_endSession net (apiClient w) sid),
      logged [HttpRequest ''POST'' (baseUrl (apiClient w) @ ''/v1/sessions/'' @ sid @ ''/end'')] w)"
  using api_endSession_effects[of net "apiClient w" sid]
  by (cases "api_endSession net (apiClient w) sid") (simp add: remote_endSession_def)

lemma endSession_registered:
  "map_of (sessions w) sid = Some ref \<Longrightarrow>
   endSession t net sid w =
     (fst (remote_endSession net sid
             ((snd (disconnect_ref ref w))\<lparr>sessions := map_delete sid (sessions w)\<rparr>)),
      teardown_ref t ref (room (objects w ref))
        (snd (remote_endSession net sid
                ((snd (disconnect_ref ref w))\<lparr>sessions := map_delete sid (sessions w)\<rparr>))))"
  by (simp add: endSession_def disconnect_ref_eq logged_def case_prod_beta Let_def)

text \<open>
  C7. When the identifier is registered, \<open>endSession\<close> makes the gateway's end-session
  call on a facade whose controller has already been disconnected and whose registry has
  already lost the entry: the log shows the effects of the controller's \<open>disconnect\<close>
  first, with its \<^verbatim>\<open>session.ended\<close>, then the one \<^verbatim>\<open>POST\<close>, and last what the
  transport's answer to the teardown brings. Whatever the gateway answers, the registry
  afterwards is the one without the entry; when the call fails, \<open>endSession\<close> raises the
  gateway's error and the entry stays removed.
\<close>

theorem endSession_removes_before_remote:
  "map_of (sessions w) sid = Some ref \<longrightarrow>
     endSession t net sid w =
       (fst (remote_endSession net sid
               ((snd (disconnect_ref ref w))\<lparr>sessions := map_delete sid (sessions w)\<rparr>)),
        teardown_ref t ref (room (objects w ref))
          (snd (remote_endSession net sid
                  ((snd (disconnect_ref ref w))\<lparr>sessions := map_delete sid (sessions w)\<rparr>))))
     \<and> room (objects (snd (disconnect_ref ref w)) ref) = None
     \<and> room (objects (snd (endSession t net sid w)) ref) = None
     \<and> sessions (snd (endSession t net sid w)) = map_delete sid (sessions w)
     \<and> map_of (sessions (snd (endSession t net sid w))) sid = None
     \<and> added w (snd (endSession t net sid w)) =
         map (OnController ref) (snd (snd (disconnect_turn (objects w ref))))
         @ [HttpRequest ''POST'' (baseUrl (apiClient w) @ ''/v1/sessions/'' @ sid @ ''/end'')]
         @ map (OnController ref)
             (snd (transport_teardown t (room (objects w ref))
                     (fst (snd (disconnect_turn (objects w ref))))))
     \<and> emitted (snd (snd (disconnect_turn (objects w ref)))) = [SESSION_EVENTS_ENDED]
     \<and> on_controller ref (added w (snd (endSession t net sid w)))
         = snd (snd (disconnect t (objects w ref)))
     \<and> emitted (on_controller ref (added w (snd (endSession t net sid w))))
         = SESSION_EVENTS_ENDED #
           (case room (objects w ref) of
              None \<Rightarrow> []
            | Some held \<Rightarrow> if notifies t
                           then replicate (ended_hooks held) SESSION_EVENTS_ENDED else [])
     \<and> fst (endSession t net sid w) = fst (api_endSession net (apiClient w) sid)
     \<and> fst (endSession t (FetchRejects e) sid w) = Inl (request_catch e)
     \<and> map_of (sessions (snd (endSession t (FetchRejects e) sid w))) sid = None
     \<and> (\<not> ok r \<longrightarrow>
          fst (endSession t (FetchResolves r) sid w) = Inl (request_catch (handleErrorResponse r))
          \<and> map_of (sessions (snd (endSession t (FetchResolves r) sid w))) sid = None)"
proof (intro impI)
  assume reg: "map_of (sessions w) sid = Some ref"
  let ?c = "objects w ref"
  let ?c1 = "fst (snd (disconnect_turn ?c))"
  let ?es = "snd (snd (disconnect_turn ?c))"
  let ?c2 = "fst (transport_teardown t (room ?c) ?c1)"
  let ?ls = "snd (transport_teardown t (room ?c) ?c1)"
  let ?post = "HttpRequest ''POST'' (baseUrl (apiClient w) @ ''/v1/sessions/'' @ sid @ ''/end'')"
  have eq: "endSession t net' sid w =
      (fst (api_endSession net' (apiClient w) sid),
       w\<lparr>objects := (objects w)(ref := ?c2),
         sessions := map_delete sid (sessions w),
         log := log w @ map (OnController ref) ?es @ [?post] @ map (OnController ref) ?ls\<rparr>)"
    for net'
    by (simp add: endSession_registered[OF reg] remote_endSession_eq disconnect_ref_eq
        teardown_ref_eq logged_def)
  have rej: "fst (api_endSession (FetchRejects e) (apiClient w) sid) = Inl (request_catch e)"
    by (simp add: api_endSession_def request_rejected)
  have nok: "\<not> ok r \<Longrightarrow> fst (api_endSession (FetchResolves r) (apiClient w) sid)
      = Inl (request_catch (handleErrorResponse r))"
    by (simp add: api_endSession_def request_not_ok)
  have r1: "room (objects (snd (disconnect_ref ref w)) ref) = None"
    by (simp add: disconnect_ref_eq logged_def disconnect_turn_read)
  have r2: "room ?c2 = None"
    by (simp add: transport_teardown_read disconnect_turn_read)
  have proj: "on_controller ref (map (OnController ref) ?es @ [?post] @ map (OnController ref) ?ls)
      = snd (snd (disconnect t ?c))"
    by (simp add: on_controller_append on_controller_map disconnect_eq)
  show "endSession t net sid w =
       (fst (remote_endSession net sid
               ((snd (disconnect_ref ref w))\<lparr>sessions := map_delete sid (sessions w)\<rparr>)),
        teardown_ref t ref (room (objects w ref))
          (snd (remote_endSession net sid
                  ((snd (disconnect_ref ref w))\<lparr>sessions := map_delete sid (sessions w)\<rparr>))))
     \<and> room (objects (snd (disconnect_ref ref w)) ref) = None
     \<and> room (objects (snd (endSession t net sid w)) ref) = None
     \<and> sessions (snd (endSession t net sid w)) = map_delete sid (sessions w)
     \<and> map_of (sessions (snd (endSession t net sid w))) sid = None
     \<and> added w (snd (endSession t net sid w)) =
         map (OnController ref) (snd (snd (disconnect_turn (objects w ref))))
         @ [HttpRequest ''POST'' (baseUrl (apiClient w) @ ''/v1/sessions/'' @ sid @ ''/end'')]
         @ map (OnController ref)
             (snd (transport_teardown t (room (objects w ref))
                     (fst (snd (disconnect_turn (objects w ref))))))
     \<and> emitted (snd (snd (disconnect_turn (objects w ref)))) = [SESSION_EVENTS_ENDED]
     \<and> on_controller ref (added w (snd (endSession t net sid w)))
         = snd (snd (disconnect t (objects w ref)))
     \<and> emitted (on_controller ref (added w (snd (endSession t net sid w))))
         = SESSION_EVENTS_ENDED #
           (case room (objects w ref) of
              None \<Rightarrow> []
            | Some held \<Rightarrow> if notifies t
                           then replicate (ended_hooks held) SESSION_EVENTS_ENDED else [])
     \<and> fst (endSession t net sid w) = fst (api_endSession net (apiClient w) sid)
     \<and> fst (endSession t (FetchRejects e) sid w) = Inl (request_catch e)
     \<and> map_of (sessions (snd (endSession t (FetchRejects e) sid w))) sid = None
     \<and> (\<not> ok r \<longrightarrow>
          fst (endSession t (FetchResolves r) sid w) = Inl (request_catch (handleErrorResponse r))
          \<and> map_of (sessions (snd (endSession t (FetchResolves r) sid w))) sid = None)"
    using nok r1 r2 proj
    by (simp add: endSession_registered[OF reg, symmetric])
       (simp add: eq rej added_def map_of_map_delete disconnect_turn_read disconnect_read)
qed

theorem endSession_removes_before_remote_witness:
  "map_of (sessions three_sessions) ''s2'' = Some 1
   \<and> fst (endSession notifying_teardown (FetchRejects (JsError ''offline'')) ''s2'' three_sessions)
       = Inl (SoulCypherError ''Request failed: offline'' (Some ''NETWORK_ERROR'') None)
   \<and> sessions (snd (endSession notifying_teardown (FetchRejects (JsError ''offline'')) ''s2''
                      three_sessions))
       = [(''s1'', 0), (''s3'', 2)]
   \<and> room (objects three_sessions 1) = Some hooked_Room
   \<and> room (objects (snd (endSession notifying_teardown (FetchRejects (JsError ''offline'')) ''s2''
                            three_sessions)) 1) = None
   \<and> added three_sessions
        (snd (endSession notifying_teardown (FetchRejects (JsError ''offline'')) ''s2''
                three_sessions))
       = [OnController 1 RoomDisconnect,
          OnController 1 (EmitEvent ''session.ended'' (SessionInfo (demo_session ''s2''))),
          HttpRequest ''POST'' ''https://api.soulcypher.ai/v1/sessions/s2/end'',
          OnController 1 (EmitEvent ''session.ended'' (SessionInfo (demo_session ''s2'')))]"
proof -
  let ?off = "FetchRejects (JsError ''offline'') :: unit fetched"
  let ?w' = "snd (endSession notifying_teardown ?off ''s2'' three_sessions)"
  have reg: "map_of (sessions three_sessions) ''s2'' = Some 1"
    by (simp add: three_sessions_def)
  have obj: "objects three_sessions 1 = held_controller ''s2''"
    by (simp add: three_sessions_def)
  have r: "room (objects three_sessions 1) = Some hooked_Room"
    unfolding obj by (simp add: held_controller_def)
  have em: "emitEvent ''session.ended'' d (held_controller ''s2'')
      = (held_controller ''s2'', [EmitEvent ''session.ended'' d])" for d
    by (simp add: emitEvent_def held_controller_def new_AvatarSessionManager_def)
  have turn: "disconnect_turn (held_controller ''s2'') =
      (Inr (), (held_controller ''s2'')\<lparr>room := None\<rparr>,
       [RoomDisconnect, EmitEvent ''session.ended'' (SessionInfo (demo_session ''s2''))])"
    by (simp add: disconnect_turn_eq SESSION_EVENTS_ENDED_def em)
       (simp add: held_controller_def new_AvatarSessionManager_def)
  have later: "transport_teardown notifying_teardown (Some hooked_Room)
                 ((held_controller ''s2'')\<lparr>room := None\<rparr>)
      = ((held_controller ''s2'')\<lparr>room := None\<rparr>,
         [EmitEvent ''session.ended'' (SessionInfo (demo_session ''s2''))])"
    using room_emit_disconnected_media[of None None "(held_controller ''s2'')\<lparr>room := None\<rparr>"]
    by (simp add: transport_teardown_def notifying_teardown_def media_Room_def
        SESSION_EVENTS_ENDED_def emitEvent_room em)
       (simp add: held_controller_def new_AvatarSessionManager_def)
  note A = endSession_removes_before_remote[where w=three_sessions and sid="''s2''" and ref=1
      and t=notifying_teardown and net="?off" and e="JsError ''offline''"]
  from A reg have a1: "fst (endSession notifying_teardown ?off ''s2'' three_sessions)
        = Inl (request_catch (JsError ''offline''))"
    and a2: "sessions ?w' = map_delete ''s2'' (sessions three_sessions)"
    and a3: "room (objects ?w' 1) = None"
    and a4: "added three_sessions ?w' =
         map (OnController 1) (snd (snd (disconnect_turn (objects three_sessions 1))))
         @ [HttpRequest ''POST'' (baseUrl (apiClient three_sessions) @ ''/v1/sessions/'' @ ''s2'' @ ''/end'')]
         @ map (OnController 1)
             (snd (transport_teardown notifying_teardown (room (objects three_sessions 1))
                     (fst (snd (disconnect_turn (objects three_sessions 1))))))"
    by blast+
  have a1': "fst (endSession notifying_teardown ?off ''s2'' three_sessions)
       = Inl (SoulCypherError ''Request failed: offline'' (Some ''NETWORK_ERROR'') None)"
    unfolding a1 by (simp add: request_catch_def)
  have a2': "sessions ?w' = [(''s1'', 0), (''s3'', 2)]"
    unfolding a2 by (simp add: three_sessions_def map_delete_def)
  have a4': "added three_sessions ?w'
       = [OnController 1 RoomDisconnect,
          OnController 1 (EmitEvent ''session.ended'' (SessionInfo (demo_session ''s2''))),
          HttpRequest ''POST'' ''https://api.soulcypher.ai/v1/sessions/s2/end'',
          OnController 1 (EmitEvent ''session.ended'' (SessionInfo (demo_session ''s2'')))]"
    unfolding a4 r unfolding obj turn
    by (simp add: later three_sessions_def demo_api_def)
  show ?thesis
    by (intro conjI) (fact reg a1' a2' r a3 a4')+
qed

subsection \<open>cleanup\<close>

lemma disconnect_ref_simps:
  "fst (disconnect_ref ref w) = Inr ()"
  "sessions (snd (disconnect_ref ref w)) = sessions w"
  "objects (snd (disconnect_ref ref w))
     = (objects w)(ref := fst (snd (disconnect_turn (objects w ref))))"
  "log (snd (disconnect_ref ref w))
     = log w @ map (OnController ref) (snd (snd (disconnect_turn (objects w ref))))"
  by (simp_all add: disconnect_ref_eq logged_def)

lemma teardown_ref_simps:
  "sessions (teardown_ref t ref held w) = sessions w"
  "objects (teardown_ref t ref held w)
     = (objects w)(ref := fst (transport_teardown t held (objects w ref)))"
  "log (teardown_ref t ref held w)
     = log w @ map (OnController ref) (snd (transport_teardown t held (objects w ref)))"
  by (simp_all add: teardown_ref_eq logged_def)

lemma teardown_ref_sessions:
  "teardown_ref t ref held (w\<lparr>sessions := s\<rparr>) = (teardown_ref t ref held w)\<lparr>sessions := s\<rparr>"
  by (simp add: teardown_ref_eq logged_def)

lemma disconnect_each_frame:
  "sessions (snd (snd (disconnect_each refs w))) = sessions w
   \<and> Promise_all (fst (disconnect_each refs w)) = Inr ()
   \<and> map fst (fst (snd (disconnect_each refs w))) = refs"
proof (induction refs arbitrary: w)
  case Nil
  show ?case by simp
next
  case (Cons ref refs)
  obtain res w1 where d: "disconnect_ref ref w = (res, w1)"
    by (cases "disconnect_ref ref w")
  have r: "res = Inr ()" "sessions w1 = sessions w"
    using disconnect_ref_simps(1,2)[of ref w] d by simp_all
  show ?case using Cons.IH[of w1] by (simp add: d r case_prod_beta Let_def)
qed

lemma disconnect_each_untouched:
  "r \<notin> set refs \<Longrightarrow> objects (snd (snd (disconnect_each refs w))) r = objects w r"
proof (induction refs arbitrary: w)
  case Nil
  show ?case by simp
next
  case (Cons ref refs)
  obtain res w1 where d: "disconnect_ref ref w = (res, w1)"
    by (cases "disconnect_ref ref w")
  have o: "objects w1 r = objects w r"
    using disconnect_ref_simps(3)[of ref w] d Cons.prems by simp
  show ?case using Cons.IH[of w1] Cons.prems by (simp add: d o case_prod_beta Let_def)
qed

lemma disconnect_each_keeps_none:
  "room (objects w r) = None \<Longrightarrow> room (objects (snd (snd (disconnect_each refs w))) r) = None"
proof (induction refs arbitrary: w)
  case Nil
  then show ?case by simp
next
  case (Cons ref refs)
  obtain res w1 where d: "disconnect_ref ref w = (res, w1)"
    by (cases "disconnect_ref ref w")
  have o: "room (objects w1 r) = None"
    using disconnect_ref_simps(3)[of ref w] d Cons.prems by (simp add: disconnect_turn_read)
  show ?case using Cons.IH[OF o] by (simp add: d case_prod_beta Let_def)
qed

lemma disconnect_each_rooms:
  "r \<in> set refs \<Longrightarrow> room (objects (snd (snd (disconnect_each refs w))) r) = None"
proof (induction refs arbitrary: w)
  case Nil
  then show ?case by simp
next
  case (Cons ref refs)
  obtain res w1 where d: "disconnect_ref ref w = (res, w1)"
    by (cases "disconnect_ref ref w")
  show ?case
  proof (cases "r = ref")
    case True
    have "room (objects w1 r) = None"
      using disconnect_ref_simps(3)[of ref w] d True by (simp add: disconnect_turn_read)
    from disconnect_each_keeps_none[OF this] show ?thesis by (simp add: d case_prod_beta Let_def)
  next
    case False
    with Cons.prems have "r \<in> set refs" by simp
    from Cons.IH[OF this, of w1] show ?thesis by (simp add: d case_prod_beta Let_def)
  qed
qed

lemma disconnect_each_distinct:
  "distinct refs \<Longrightarrow>
   (\<forall>r \<in> set refs. objects (snd (snd (disconnect_each refs w))) r
                     = fst (snd (disconnect_turn (objects w r))))
   \<and> fst (snd (disconnect_each refs w)) = map (\<lambda>r. (r, room (objects w r))) refs
   \<and> log (snd (snd (disconnect_each refs w))) =
       log w @ concat (map (\<lambda>r. map (OnController r) (snd (snd (disconnect_turn (objects w r)))))
                         refs)"
proof (induction refs arbitrary: w)
  case Nil
  show ?case by simp
next
  case (Cons ref refs)
  obtain res w1 where d: "disconnect_ref ref w = (res, w1)"
    by (cases "disconnect_ref ref w")
  have o: "objects w1 = (objects w)(ref := fst (snd (disconnect_turn (objects w ref))))"
    and l: "log w1 = log w @ map (OnController ref) (snd (snd (disconnect_turn (objects w ref))))"
    using disconnect_ref_simps(3,4)[of ref w] d by simp_all
  from Cons.prems have nin: "ref \<notin> set refs" and dis: "distinct refs" by simp_all
  have same: "\<forall>r \<in> set refs. objects w1 r = objects w r" using nin by (auto simp: o)
  have head: "objects (snd (snd (disconnect_each refs w1))) ref = objects w1 ref"
    using disconnect_each_untouched[OF nin] .
  have cm: "map (\<lambda>r. map (OnController r) (snd (snd (disconnect_turn (objects w1 r))))) refs
          = map (\<lambda>r. map (OnController r) (snd (snd (disconnect_turn (objects w r))))) refs"
    using same by simp
  have hm: "map (\<lambda>r. (r, room (objects w1 r))) refs = map (\<lambda>r. (r, room (objects w r))) refs"
    using same by simp
  show ?case using Cons.IH[OF dis, of w1] same head
    by (simp add: d l cm hm case_prod_beta Let_def) (simp add: o)
qed

lemma teardown_each_sessions:
  "teardown_each tr hs (w\<lparr>sessions := s\<rparr>) = (teardown_each tr hs w)\<lparr>sessions := s\<rparr>"
  by (induction tr hs w rule: teardown_each.induct) (simp_all add: teardown_ref_sessions)

lemma teardown_each_frame:
  "sessions (teardown_each tr hs w) = sessions w
   \<and> room (objects (teardown_each tr hs w) r) = room (objects w r)"
  by (induction tr hs w rule: teardown_each.induct)
     (simp_all add: teardown_ref_simps transport_teardown_read)

lemma teardown_each_untouched:
  "r \<notin> fst ` set hs \<Longrightarrow> objects (teardown_each tr hs w) r = objects w r"
  by (induction tr hs w rule: teardown_each.induct) (auto simp: teardown_ref_simps)

lemma teardown_each_distinct:
  "distinct refs \<Longrightarrow>
   (\<forall>r \<in> set refs. objects (teardown_each tr (map (\<lambda>r. (r, h r)) refs) w) r
                     = fst (transport_teardown (tr r) (h r) (objects w r)))
   \<and> log (teardown_each tr (map (\<lambda>r. (r, h r)) refs) w) =
       log w @ concat (map (\<lambda>r. map (OnController r)
                                   (snd (transport_teardown (tr r) (h r) (objects w r))))
                         refs)"
proof (induction refs arbitrary: w)
  case Nil
  show ?case by simp
next
  case (Cons ref refs)
  let ?w1 = "teardown_ref (tr ref) ref (h ref) w"
  from Cons.prems have nin: "ref \<notin> set refs" and dis: "distinct refs" by simp_all
  have same: "\<forall>r \<in> set refs. objects ?w1 r = objects w r"
    using nin by (auto simp: teardown_ref_simps)
  have "ref \<notin> fst ` set (map (\<lambda>r. (r, h r)) refs)" using nin by (auto simp: image_iff)
  from teardown_each_untouched[OF this]
  have head: "objects (teardown_each tr (map (\<lambda>r. (r, h r)) refs) ?w1) ref = objects ?w1 ref" .
  have cm: "map (\<lambda>r. map (OnController r)
                        (snd (transport_teardown (tr r) (h r) (objects ?w1 r)))) refs
          = map (\<lambda>r. map (OnController r)
                        (snd (transport_teardown (tr r) (h r) (objects w r)))) refs"
    using same by simp
  show ?case using Cons.IH[OF dis, of ?w1] same head
    by (simp add: cm) (simp add: teardown_ref_simps)
qed

text \<open>
  \<^verbatim>\<open>Promise.all\<close> resolves exactly when every promise does, and the \<^verbatim>\<open>clear\<close> of
  \<open>cleanup\<close> sits behind it. The promises here are those of \<open>disconnect\<close>, which has
  no \<^verbatim>\<open>await\<close> and no \<^verbatim>\<open>throw\<close> and drops the transport's promise: they all resolve.
\<close>

lemma Promise_all_resolves: "Promise_all ps = Inr () \<longleftrightarrow> (\<forall>p \<in> set ps. p = Inr ())"
  by (induction ps rule: Promise_all.induct) auto

lemma cleanup_rejected_keeps_registry:
  "Promise_all (fst (disconnect_each (map snd (sessions w)) w)) = Inl e \<Longrightarrow>
   sessions (snd (cleanup tr w)) = sessions w \<and> fst (cleanup tr w) = Inl e"
  using disconnect_each_frame[of "map snd (sessions w)" w]
  by (simp add: cleanup_def case_prod_beta teardown_each_frame)

lemma cleanup_eq:
  "cleanup tr w =
     (Inr (),
      (teardown_each tr (fst (snd (disconnect_each (getActiveSessions w) w)))
         (snd (snd (disconnect_each (getActiveSessions w) w))))\<lparr>sessions := []\<rparr>)"
  using disconnect_each_frame[of "getActiveSessions w" w]
  by (simp add: cleanup_def getActiveSessions_def case_prod_beta teardown_each_sessions)

lemma cleanup_log:
  assumes "distinct (getActiveSessions w)"
  shows "\<forall>r \<in> set (getActiveSessions w).
           objects (snd (cleanup tr w)) r = fst (snd (disconnect (tr r) (objects w r)))"
    and "added w (snd (cleanup tr w)) =
           concat (map (\<lambda>r. map (OnController r) (snd (snd (disconnect_turn (objects w r)))))
                     (getActiveSessions w))
           @ concat (map (\<lambda>r. map (OnController r)
                                 (snd (transport_teardown (tr r) (room (objects w r))
                                         (fst (snd (disconnect_turn (objects w r)))))))
                       (getActiveSessions w))"
proof -
  let ?refs = "getActiveSessions w"
  let ?h = "\<lambda>r. room (objects w r)"
  let ?w1 = "snd (snd (disconnect_each ?refs w))"
  note D = disconnect_each_distinct[OF assms, of w]
  from D have hs: "fst (snd (disconnect_each ?refs w)) = map (\<lambda>r. (r, ?h r)) ?refs"
    and o1: "\<forall>r \<in> set ?refs. objects ?w1 r = fst (snd (disconnect_turn (objects w r)))"
    and l1: "log ?w1 = log w @ concat (map (\<lambda>r. map (OnController r)
                 (snd (snd (disconnect_turn (objects w r))))) ?refs)"
    by blast+
  note T = teardown_each_distinct[OF assms, of tr ?h ?w1]
  from T have o2: "\<forall>r \<in> set ?refs. objects (teardown_each tr (map (\<lambda>r. (r, ?h r)) ?refs) ?w1) r
                     = fst (transport_teardown (tr r) (?h r) (objects ?w1 r))"
    and l2: "log (teardown_each tr (map (\<lambda>r. (r, ?h r)) ?refs) ?w1) =
       log ?w1 @ concat (map (\<lambda>r. map (OnController r)
                                   (snd (transport_teardown (tr r) (?h r) (objects ?w1 r))))
                         ?refs)"
    by blast+
  have cm: "map (\<lambda>r. map (OnController r)
                        (snd (transport_teardown (tr r) (?h r) (objects ?w1 r)))) ?refs
          = map (\<lambda>r. map (OnController r)
                        (snd (transport_teardown (tr r) (?h r)
                                (fst (snd (disconnect_turn (objects w r))))))) ?refs"
    using o1 by simp
  show "\<forall>r \<in> set ?refs.
           objects (snd (cleanup tr w)) r = fst (snd (disconnect (tr r) (objects w r)))"
    using o1 o2 by (simp add: cleanup_eq hs disconnect_eq)
  show "added w (snd (cleanup tr w)) =
           concat (map (\<lambda>r. map (OnController r) (snd (snd (disconnect_turn (objects w r)))))
                     ?refs)
           @ concat (map (\<lambda>r. map (OnController r)
                                 (snd (transport_teardown (tr r) (room (objects w r))
                                         (fst (snd (disconnect_turn (objects w r)))))))
                       ?refs)"
    by (simp add: cleanup_eq hs added_def l2 l1 cm)
qed

text \<open>
  C1. \<open>cleanup\<close> calls \<open>disconnect\<close> on every registered controller, in registry order;
  however the transport's disconnect settles for each of them, rejections included, every
  one of these calls resolves, so \<^verbatim>\<open>Promise.all\<close> resolves, \<open>cleanup\<close> resolves and the
  registry is empty afterwards. Every registered controller is left without a room and no
  other controller is touched; when the registry names each controller once, each has had
  exactly its own \<open>disconnect\<close>: one call of the transport's disconnect if it held a room,
  one \<^verbatim>\<open>session.ended\<close> from the call, and one more for each hook on the room it held
  when the transport notifies. With handlers that register and remove nothing the
  controller is the one before with its room dropped. \<open>cleanup\<close> makes no network call.
\<close>

theorem cleanup_disconnects_all_and_clears:
  "fst (cleanup tr w) = Inr ()
   \<and> sessions (snd (cleanup tr w)) = []
   \<and> (\<forall>r \<in> set (getActiveSessions w). room (objects (snd (cleanup tr w)) r) = None)
   \<and> (\<forall>r. r \<notin> set (getActiveSessions w) \<longrightarrow> objects (snd (cleanup tr w)) r = objects w r)
   \<and> (distinct (getActiveSessions w) \<longrightarrow>
        (\<forall>r \<in> set (getActiveSessions w).
            objects (snd (cleanup tr w)) r = fst (snd (disconnect (tr r) (objects w r)))
          \<and> (list_all inert (handlers_of (objects w r) SESSION_EVENTS_ENDED) \<longrightarrow>
               objects (snd (cleanup tr w)) r = (objects w r)\<lparr>room := None\<rparr>)
          \<and> on_controller r (added w (snd (cleanup tr w)))
              = snd (snd (disconnect (tr r) (objects w r)))
          \<and> emitted (on_controller r (added w (snd (cleanup tr w))))
              = SESSION_EVENTS_ENDED #
                (case room (objects w r) of
                   None \<Rightarrow> []
                 | Some held \<Rightarrow> if notifies (tr r)
                                then replicate (ended_hooks held) SESSION_EVENTS_ENDED else [])
          \<and> transport_io (on_controller r (added w (snd (cleanup tr w))))
              = (if room (objects w r) = None then [] else [RoomDisconnect]))
        \<and> http_requests (added w (snd (cleanup tr w))) = [])"
proof -
  let ?refs = "getActiveSessions w"
  let ?w1 = "snd (snd (disconnect_each ?refs w))"
  let ?hs = "fst (snd (disconnect_each ?refs w))"
  have w': "snd (cleanup tr w) = (teardown_each tr ?hs ?w1)\<lparr>sessions := []\<rparr>"
    and res: "fst (cleanup tr w) = Inr ()"
    by (simp_all add: cleanup_eq)
  have ob: "objects (snd (cleanup tr w)) = objects (teardown_each tr ?hs ?w1)"
    by (simp add: w')
  have fs: "fst ` set ?hs = set ?refs"
    using disconnect_each_frame[of ?refs w] by (metis set_map)
  have rooms: "\<forall>r \<in> set ?refs. room (objects (snd (cleanup tr w)) r) = None"
    unfolding ob using disconnect_each_rooms[of _ ?refs w] teardown_each_frame[of tr ?hs ?w1]
    by simp
  have untouched: "\<forall>r. r \<notin> set ?refs \<longrightarrow> objects (snd (cleanup tr w)) r = objects w r"
    unfolding ob using disconnect_each_untouched[of _ ?refs w]
      teardown_each_untouched[of _ ?hs tr ?w1] fs by simp
  have each: "objects (snd (cleanup tr w)) r = fst (snd (disconnect (tr r) (objects w r)))
          \<and> (list_all inert (handlers_of (objects w r) SESSION_EVENTS_ENDED) \<longrightarrow>
               objects (snd (cleanup tr w)) r = (objects w r)\<lparr>room := None\<rparr>)
          \<and> on_controller r (added w (snd (cleanup tr w)))
              = snd (snd (disconnect (tr r) (objects w r)))
          \<and> emitted (on_controller r (added w (snd (cleanup tr w))))
              = SESSION_EVENTS_ENDED #
                (case room (objects w r) of
                   None \<Rightarrow> []
                 | Some held \<Rightarrow> if notifies (tr r)
                                then replicate (ended_hooks held) SESSION_EVENTS_ENDED else [])
          \<and> transport_io (on_controller r (added w (snd (cleanup tr w))))
              = (if room (objects w r) = None then [] else [RoomDisconnect])"
    if "distinct ?refs" and "r \<in> set ?refs" for r
  proof -
    have o: "objects (snd (cleanup tr w)) r = fst (snd (disconnect (tr r) (objects w r)))"
      using cleanup_log(1)[OF that(1), of tr] that(2) by blast
    have l: "on_controller r (added w (snd (cleanup tr w)))
        = snd (snd (disconnect (tr r) (objects w r)))"
      unfolding cleanup_log(2)[OF that(1)]
      using that(2)
      by (simp add: on_controller_append on_controller_concat[OF that(1)] disconnect_eq)
    show ?thesis
      unfolding l o by (simp add: disconnect_read disconnect_inert)
  qed
  have http: "http_requests (added w (snd (cleanup tr w))) = []" if "distinct ?refs"
    unfolding cleanup_log(2)[OF that]
    by (simp add: http_requests_append http_requests_concat)
  have s: "sessions (snd (cleanup tr w)) = []"
    by (simp add: w')
  show ?thesis
    using res s rooms untouched each http by blast
qed

theorem cleanup_disconnects_all_and_clears_witness:
  "getActiveSessions three_sessions = [0, 1, 2]
   \<and> promise (second_rejects 1) = Rejects (JsError ''socket closed'')
   \<and> room (objects three_sessions 0) = Some hooked_Room
   \<and> room (objects three_sessions 2) = Some hooked_Room
   \<and> fst (cleanup second_rejects three_sessions) = Inr ()
   \<and> sessions (snd (cleanup second_rejects three_sessions)) = []
   \<and> room (objects (snd (cleanup second_rejects three_sessions)) 0) = None
   \<and> room (objects (snd (cleanup second_rejects three_sessions)) 1) = None
   \<and> room (objects (snd (cleanup second_rejects three_sessions)) 2) = None
   \<and> on_controller 0 (added three_sessions (snd (cleanup second_rejects three_sessions)))
       = [RoomDisconnect, EmitEvent ''session.ended'' (SessionInfo (demo_session ''s1'')),
          EmitEvent ''session.ended'' (SessionInfo (demo_session ''s1''))]
   \<and> on_controller 1 (added three_sessions (snd (cleanup second_rejects three_sessions)))
       = [RoomDisconnect, EmitEvent ''session.ended'' (SessionInfo (demo_session ''s2'')),
          EmitEvent ''session.ended'' (SessionInfo (demo_session ''s2'')),
          UnhandledRejection (JsError ''socket closed'')]
   \<and> on_controller 2 (added three_sessions (snd (cleanup second_rejects three_sessions)))
       = [RoomDisconnect, EmitEvent ''session.ended'' (SessionInfo (demo_session ''s3'')),
          EmitEvent ''session.ended'' (SessionInfo (demo_session ''s3''))]"
proof -
  let ?w' = "snd (cleanup second_rejects three_sessions)"
  have refs: "getActiveSessions three_sessions = [0, 1, 2]"
    by (simp add: getActiveSessions_def three_sessions_def)
  have dist: "distinct (getActiveSessions three_sessions)"
    unfolding refs by simp
  have mem: "0 \<in> set (getActiveSessions three_sessions)"
    "1 \<in> set (getActiveSessions three_sessions)"
    "2 \<in> set (getActiveSessions three_sessions)"
    unfolding refs by simp_all
  have tr: "second_rejects 0 = notifying_teardown" "second_rejects 1 = rejecting_teardown"
    "second_rejects 2 = notifying_teardown"
    by (simp_all add: second_rejects_def)
  have pr: "promise (second_rejects 1) = Rejects (JsError ''socket closed'')"
    by (simp add: second_rejects_def rejecting_teardown_def)
  have obj: "objects three_sessions 0 = held_controller ''s1''"
    "objects three_sessions 1 = held_controller ''s2''"
    "objects three_sessions 2 = held_controller ''s3''"
    by (simp_all add: three_sessions_def)
  have held: "room (held_controller i) = Some hooked_Room" for i
    by (simp add: held_controller_def)
  have em: "emitEvent ''session.ended'' d (held_controller i)
      = (held_controller i, [EmitEvent ''session.ended'' d])" for d i
    by (simp add: emitEvent_def held_controller_def new_AvatarSessionManager_def)
  have turn: "disconnect_turn (held_controller i) =
      (Inr (), (held_controller i)\<lparr>room := None\<rparr>,
       [RoomDisconnect, EmitEvent ''session.ended'' (SessionInfo (demo_session i))])" for i
    by (simp add: disconnect_turn_eq SESSION_EVENTS_ENDED_def em)
       (simp add: held_controller_def new_AvatarSessionManager_def)
  have hook: "room_emit EvDisconnected hooked_Room ((held_controller i)\<lparr>room := None\<rparr>)
      = ((held_controller i)\<lparr>room := None\<rparr>,
         [EmitEvent ''session.ended'' (SessionInfo (demo_session i))])" for i
    using room_emit_disconnected_media[of None None "(held_controller i)\<lparr>room := None\<rparr>"]
    by (simp add: media_Room_def SESSION_EVENTS_ENDED_def emitEvent_room em)
       (simp add: held_controller_def new_AvatarSessionManager_def)
  have eff: "snd (snd (disconnect t (held_controller i))) =
      [RoomDisconnect, EmitEvent ''session.ended'' (SessionInfo (demo_session i))]
      @ (if notifies t then [EmitEvent ''session.ended'' (SessionInfo (demo_session i))] else [])
      @ (case promise t of Resolves \<Rightarrow> [] | Rejects e \<Rightarrow> [UnhandledRejection e])" for t i
    by (simp add: disconnect_eq turn held transport_teardown_def hook)
  note T = cleanup_disconnects_all_and_clears[where tr=second_rejects and w=three_sessions]
  from T have res: "fst (cleanup second_rejects three_sessions) = Inr ()"
    and emp: "sessions ?w' = []"
    by blast+
  from T mem have r0: "room (objects ?w' 0) = None" and r1: "room (objects ?w' 1) = None"
    and r2: "room (objects ?w' 2) = None"
    by blast+
  from T dist mem have l0: "on_controller 0 (added three_sessions ?w')
        = snd (snd (disconnect (second_rejects 0) (objects three_sessions 0)))"
    and l1: "on_controller 1 (added three_sessions ?w')
        = snd (snd (disconnect (second_rejects 1) (objects three_sessions 1)))"
    and l2: "on_controller 2 (added three_sessions ?w')
        = snd (snd (disconnect (second_rejects 2) (objects three_sessions 2)))"
    by blast+
  have l0': "on_controller 0 (added three_sessions ?w')
       = [RoomDisconnect, EmitEvent ''session.ended'' (SessionInfo (demo_session ''s1'')),
          EmitEvent ''session.ended'' (SessionInfo (demo_session ''s1''))]"
    unfolding l0 obj tr eff by (simp add: notifying_teardown_def)
  have l1': "on_controller 1 (added three_sessions ?w')
       = [RoomDisconnect, EmitEvent ''session.ended'' (SessionInfo (demo_session ''s2'')),
          EmitEvent ''session.ended'' (SessionInfo (demo_session ''s2'')),
          UnhandledRejection (JsError ''socket closed'')]"
    unfolding l1 obj tr eff by (simp add: rejecting_teardown_def)
  have l2': "on_controller 2 (added three_sessions ?w')
       = [RoomDisconnect, EmitEvent ''session.ended'' (SessionInfo (demo_session ''s3'')),
          EmitEvent ''session.ended'' (SessionInfo (demo_session ''s3''))]"
    unfolding l2 obj tr eff by (simp add: notifying_teardown_def)
  have h0: "room (objects three_sessions 0) = Some hooked_Room"
    and h2: "room (objects three_sessions 2) = Some hooked_Room"
    unfolding obj by (rule held)+
  show ?thesis
    by (intro conjI) (fact refs pr h0 h2 res emp r0 r1 r2 l0' l1' l2')+
qed

end
